theory Spec2Isabelle
  imports Complex_Main
begin

section \<open>Object model of the Arduino extension\<close>

text \<open>
  The three source files are one object graph: \<open>ArduinoBlocks\<close> (index.js) holds an
  \<open>ArduinoConnector\<close> (arduino-connector.js), which holds \<open>ArduinoBoard\<close> objects
  (arduino-board), each of which holds at most one \<open>Firmata\<close> protocol client. Objects are
  compared by identity in the source (\<open>this.firmata !== firmata\<close>, \<open>boards.indexOf\<close>), so
  boards and protocol clients live in stores indexed by a reference, and every method takes
  its receiver \<open>this\<close> explicitly and returns the updated world.

  Promises are entries of a table; the index of an entry is the identity of the promise.
  Callbacks run to completion, one after the other (the JavaScript event loop), so each
  callback of the source is one function on the world, and the environment is a list of
  events: a port request settling, a Firmata instance emitting a signal, a millisecond passing.
\<close>

type_synonym fref = nat
type_synonym bref = nat
type_synonym pid = nat

text \<open>What \<open>parseInt\<close> returns: an integer, or \<open>None\<close> for NaN.\<close>

type_synonym jsint = "int option"

datatype board_state = Disconnect | PortRequesting | Connect | Ready

datatype jserror = TimeoutError nat | TypeError | NoWebSerial | Reason string

datatype jsvalue = VUndefined | VNaN | VBoard bref | VNum real | VBool bool | VStr string

datatype settle = Pending | Resolved jsvalue | Rejected jserror

text \<open>The \<open>MODES\<close> table of the board module.\<close>

definition MODES_INPUT :: nat where "MODES_INPUT = 0"
definition MODES_OUTPUT :: nat where "MODES_OUTPUT = 1"
definition MODES_ANALOG :: nat where "MODES_ANALOG = 2"
definition MODES_PWM :: nat where "MODES_PWM = 3"
definition MODES_SERVO :: nat where "MODES_SERVO = 4"
definition MODES_PULLUP :: nat where "MODES_PULLUP = 11"

text \<open>
  A pin as the board module uses it. \<open>mode\<close> and \<open>supportedModes\<close> are written by the
  protocol client only; \<open>pin_value\<close> (the source's \<open>value\<close>), \<open>updateTime\<close>, \<open>updating\<close>
  and \<open>inputBias\<close> are written by the board. \<open>None\<close> is JavaScript's \<open>undefined\<close>.
\<close>

record pin =
  supportedModes :: "nat list"
  mode :: "nat option"
  pin_value :: int
  updateTime :: "int option"
  updating :: bool
  inputBias :: "nat option"

text \<open>Calls made on the protocol client and its transport, in the order they were made.\<close>

datatype command =
    PinMode jsint nat
  | ReportDigitalPin nat nat
  | ReportAnalogPin nat nat
  | DigitalWrite jsint nat bool
  | PwmWrite jsint int
  | ServoWrite jsint real
  | I2cConfig
  | Reset
  | TransportClose

datatype signal = SOpen | SClose | SDisconnect | SError | SReady | SDigitalRead nat | SAnalogRead nat

text \<open>
  The listeners the source registers on a Firmata instance, each with the variables its
  closure captures: the board \<open>this\<close>, and for the "ready" listener and the sample
  listeners the promise their \<open>resolve\<close> belongs to. The instance the listener compares
  against is the one it is registered on.
\<close>

datatype handler =
    HOpen bref
  | HClose bref
  | HDisconnect bref
  | HError bref
  | HReady bref pid
  | HDigitalRead bref nat pid
  | HAnalogRead bref nat nat pid

text \<open>
  A Firmata instance. \<open>transport\<close>, \<open>isOpen\<close>, \<open>pins\<close> and \<open>analogPins\<close> are properties
  the protocol client maintains; \<open>closeThrows\<close> says whether \<open>transport.close()\<close> throws
  when it is called (the one external failure the source guards with try/catch).
\<close>

record firmata_obj =
  transport :: bool
  isOpen :: bool
  closeThrows :: bool
  pins :: "pin list"
  analogPins :: "nat list"
  listeners :: "(signal \<times> handler) list"
  sent :: "command list"

record port_info =
  usbVendorId :: "nat option"
  usbProductId :: "nat option"

text \<open>
  The fields of \<open>ArduinoBoard\<close>. \<open>releasedOnce\<close> counts the listeners registered with
  \<open>once(ArduinoBoard.RELEASED, ...)\<close>; the only such listener in the repository is the one
  \<open>ArduinoConnector.connectSerial\<close> installs.
\<close>

record board_obj =
  extensionId :: "string option"
  state :: board_state
  firmata :: "fref option"
  portInfo :: "port_info option"
  digitalReadInterval :: int
  connectingWaitingTime :: nat
  analogReadInterval :: int
  sendingInterval :: nat
  updateDigitalInputWaitingTime :: nat
  updateAnalogInputWaitingTime :: nat
  releasedOnce :: nat

datatype board_event = RELEASED

datatype connector_event = BOARD_REMOVED | BOARD_ADDED

datatype runtime_event =
    PERIPHERAL_CONNECTED "port_info option"
  | PERIPHERAL_DISCONNECTED "port_info option"
  | PERIPHERAL_CONNECTION_LOST_ERROR "string option"

text \<open>
  Reactions chained on the promise of a connect call: the \<open>then\<close> of
  \<open>ArduinoConnector.connectSerial\<close> and the \<open>then\<close> of \<open>ArduinoBlocks.connectBoard\<close>.
\<close>

datatype reaction = ConnectorThen | BlocksThen

text \<open>
  A promise: its state, the \<open>catch\<close>/\<open>finally\<close> pair of a pin read (with the board and
  the pin index its closures capture) when it is the promise of a read, and the reactions
  waiting for it.
\<close>

record promise =
  status :: settle
  cleanup :: "(bref \<times> nat) option"
  thens :: "reaction list"

datatype timer_action = TimeoutReject pid nat | PaceResolve pid

record world =
  boards :: "bref \<Rightarrow> board_obj"
  nboards :: nat
  firmatas :: "fref \<Rightarrow> firmata_obj"
  nfirmatas :: nat
  promises :: "promise list"
  requests :: "(pid \<times> bref) list"
  timers :: "(int \<times> timer_action) list"
  now :: int
  serial :: bool
  connector_boards :: "bref list"
  connector_listeners :: "connector_event list"
  blocks_board :: "bref option"
  board_emitted :: "(bref \<times> board_event) list"
  connector_emitted :: "(connector_event \<times> bref) list"
  runtime_emitted :: "runtime_event list"

definition upd_board :: "bref \<Rightarrow> (board_obj \<Rightarrow> board_obj) \<Rightarrow> world \<Rightarrow> world" where
  "upd_board this g w = w\<lparr>boards := (boards w)(this := g (boards w this))\<rparr>"

definition upd_firmata :: "fref \<Rightarrow> (firmata_obj \<Rightarrow> firmata_obj) \<Rightarrow> world \<Rightarrow> world" where
  "upd_firmata f g w = w\<lparr>firmatas := (firmatas w)(f := g (firmatas w f))\<rparr>"

definition call :: "fref \<Rightarrow> command \<Rightarrow> world \<Rightarrow> world" where
  "call f c w = upd_firmata f (\<lambda>fo. fo\<lparr>sent := sent fo @ [c]\<rparr>) w"

definition runtime_emit :: "runtime_event \<Rightarrow> world \<Rightarrow> world" where
  "runtime_emit e w = w\<lparr>runtime_emitted := runtime_emitted w @ [e]\<rparr>"

subsection \<open>ArduinoBoard: state queries\<close>

definition isConnected :: "bref \<Rightarrow> world \<Rightarrow> bool" where
  "isConnected this w = (state (boards w this) = Connect \<or> state (boards w this) = Ready)"

definition isReady :: "bref \<Rightarrow> world \<Rightarrow> bool" where
  "isReady this w = (state (boards w this) = Ready)"

subsection \<open>ArduinoConnector: the registry\<close>

text \<open>
  \<open>findBoard(options)\<close>. \<open>None\<close> for the options stands for a missing \<open>options\<close> or a
  missing \<open>options.filters\<close>. With filters, \<open>Array.find\<close> returns the first board that is
  connected and matches some filter. A connected board always carries its port information
  (\<open>openSerialPort\<close> stores it before the protocol client exists), so the lookup of
  \<open>aBoard.portInfo.usbVendorId\<close> on a missing \<open>portInfo\<close> is modelled as no match.
\<close>

definition filter_matches :: "port_info option \<Rightarrow> nat option \<times> nat option \<Rightarrow> bool" where
  "filter_matches info flt =
     (case info of
        None \<Rightarrow> False
      | Some i \<Rightarrow> fst flt = usbVendorId i \<and> snd flt = usbProductId i)"

definition findBoard :: "(nat option \<times> nat option) list option \<Rightarrow> world \<Rightarrow> bref option" where
  "findBoard options w =
     (if connector_boards w = [] then None
      else case options of
        None \<Rightarrow> Some (hd (connector_boards w))
      | Some filters \<Rightarrow>
          List.find
            (\<lambda>aBoard. isConnected aBoard w \<and>
               list_ex (filter_matches (portInfo (boards w aBoard))) filters)
            (connector_boards w))"

text \<open>\<open>ArduinoBlocks.updateBoard\<close>, the listener the blocks register on the connector.\<close>

definition updateBoard :: "world \<Rightarrow> world" where
  "updateBoard w =
     (case blocks_board w of
        None \<Rightarrow> w\<lparr>blocks_board := findBoard None w\<rparr>
      | Some b \<Rightarrow>
          if isConnected b w then w
          else w\<lparr>blocks_board := findBoard None w\<rparr>)"

text \<open>
  \<open>emit\<close> on the connector: the emission is recorded with its payload, then every listener
  registered for that event name runs (each of them is \<open>updateBoard\<close>).
\<close>

definition connector_emit :: "connector_event \<Rightarrow> bref \<Rightarrow> world \<Rightarrow> world" where
  "connector_emit ev b w =
     fold (\<lambda>_. updateBoard)
       (filter (\<lambda>e. e = ev) (connector_listeners w))
       (w\<lparr>connector_emitted := connector_emitted w @ [(ev, b)]\<rparr>)"

definition addBoard :: "bref \<Rightarrow> world \<Rightarrow> world" where
  "addBoard newBoard w =
     connector_emit BOARD_ADDED newBoard
       (w\<lparr>connector_boards := connector_boards w @ [newBoard]\<rparr>)"

text \<open>
  \<open>removeBoard\<close>: \<open>indexOf\<close> finds the first occurrence, \<open>splice(index, 1)\<close> deletes it,
  and the source then emits \<open>ArduinoConnector.BOARD_ADDED\<close>.
\<close>

definition removeBoard :: "bref \<Rightarrow> world \<Rightarrow> world" where
  "removeBoard removal w =
     (if removal \<notin> set (connector_boards w) then w
      else connector_emit BOARD_ADDED removal
             (w\<lparr>connector_boards := remove1 removal (connector_boards w)\<rparr>))"

subsection \<open>ArduinoBoard: release, disconnect, lost connection\<close>

text \<open>
  The listener of \<open>ArduinoConnector.connectSerial\<close> on the board's RELEASED event, and
  \<open>this.emit(ArduinoBoard.RELEASED)\<close>: the emission is recorded, the once-listeners are
  detached and then run.
\<close>

definition on_released :: "bref \<Rightarrow> world \<Rightarrow> world" where
  "on_released aBoard w =
     (let w1 = removeBoard aBoard w
      in runtime_emit (PERIPHERAL_DISCONNECTED (portInfo (boards w1 aBoard))) w1)"

definition emit_RELEASED :: "bref \<Rightarrow> world \<Rightarrow> world" where
  "emit_RELEASED this w =
     (let n = releasedOnce (boards w this);
          w1 = w\<lparr>board_emitted := board_emitted w @ [(this, RELEASED)]\<rparr>;
          w2 = upd_board this (\<lambda>b. b\<lparr>releasedOnce := 0\<rparr>) w1
      in (on_released this ^^ n) w2)"

text \<open>
  The try block of \<open>releaseBoard\<close>: when \<open>transport.close()\<close> throws, the statement after
  it (\<open>removeAllListeners\<close>) is skipped and the error is only logged.
\<close>

definition try_close :: "fref \<Rightarrow> world \<Rightarrow> world" where
  "try_close f w =
     (let fo = firmatas w f in
      if transport fo \<and> isOpen fo then
        (if closeThrows fo then w
         else upd_firmata f (\<lambda>fo. fo\<lparr>listeners := []\<rparr>) (call f TransportClose w))
      else upd_firmata f (\<lambda>fo. fo\<lparr>listeners := []\<rparr>) w)"

definition releaseBoard :: "bref \<Rightarrow> world \<Rightarrow> world" where
  "releaseBoard this w =
     (let w1 = upd_board this (\<lambda>b. b\<lparr>state := Disconnect\<rparr>) w;
          w2 = (case firmata (boards w1 this) of
                  None \<Rightarrow> w1
                | Some f \<Rightarrow> upd_board this (\<lambda>b. b\<lparr>firmata := None\<rparr>) (try_close f w1));
          w3 = upd_board this (\<lambda>b. b\<lparr>extensionId := None\<rparr>) w2
      in emit_RELEASED this w3)"

definition disconnect :: "bref \<Rightarrow> world \<Rightarrow> world" where
  "disconnect this w =
     (if state (boards w this) = Disconnect then w
      else releaseBoard this
             (case firmata (boards w this) of
                None \<Rightarrow> w
              | Some f \<Rightarrow> call f Reset w))"

definition handleDisconnectError :: "bref \<Rightarrow> world \<Rightarrow> world" where
  "handleDisconnectError this w =
     (if state (boards w this) = Disconnect then w
      else disconnect this
             (runtime_emit (PERIPHERAL_CONNECTION_LOST_ERROR (extensionId (boards w this))) w))"

subsection \<open>Promises and timers\<close>

definition new_promise :: "settle \<Rightarrow> (bref \<times> nat) option \<Rightarrow> world \<Rightarrow> pid \<times> world" where
  "new_promise s c w =
     (length (promises w),
      w\<lparr>promises := promises w @ [\<lparr>status = s, cleanup = c, thens = []\<rparr>]\<rparr>)"

definition set_status :: "pid \<Rightarrow> settle \<Rightarrow> world \<Rightarrow> world" where
  "set_status p s w = w\<lparr>promises := (promises w)[p := (promises w ! p)\<lparr>status := s\<rparr>]\<rparr>"

text \<open>
  The \<open>then\<close> callbacks on a connect promise. Both run only when the promise resolves
  with a board: the connector adds the board and subscribes once to its RELEASED event;
  the blocks notify the host.
\<close>

definition run_reaction :: "settle \<Rightarrow> reaction \<Rightarrow> world \<Rightarrow> world" where
  "run_reaction s r w =
     (case s of
        Resolved (VBoard aBoard) \<Rightarrow>
          (case r of
             ConnectorThen \<Rightarrow>
               upd_board aBoard (\<lambda>b. b\<lparr>releasedOnce := Suc (releasedOnce b)\<rparr>) (addBoard aBoard w)
           | BlocksThen \<Rightarrow>
               runtime_emit (PERIPHERAL_CONNECTED (portInfo (boards w aBoard))) w)
      | _ \<Rightarrow> w)"

text \<open>
  \<open>this.pins[pin]\<close>: the getter \<open>pins\<close> reads \<open>this.firmata.pins\<close>, so the lookup needs
  a protocol client and an index inside the array; otherwise the property access that
  follows throws a TypeError (\<open>None\<close>).
\<close>

definition pin_at :: "bref \<Rightarrow> jsint \<Rightarrow> world \<Rightarrow> (fref \<times> nat \<times> pin) option" where
  "pin_at this i w =
     (case firmata (boards w this) of
        None \<Rightarrow> None
      | Some f \<Rightarrow>
          (case i of
             None \<Rightarrow> None
           | Some k \<Rightarrow>
               if 0 \<le> k \<and> nat k < length (pins (firmatas w f))
               then Some (f, nat k, pins (firmatas w f) ! nat k)
               else None))"

definition upd_pin :: "fref \<Rightarrow> nat \<Rightarrow> (pin \<Rightarrow> pin) \<Rightarrow> world \<Rightarrow> world" where
  "upd_pin f n g w = upd_firmata f (\<lambda>fo. fo\<lparr>pins := (pins fo)[n := g (pins fo ! n)]\<rparr>) w"

text \<open>
  The tail of both reads, \<open>.catch(reason => {this.pins[pin].value = 0; return
  Promise.reject(reason)}).finally(() => {this.pins[pin].updating = false})\<close>, run on the
  outcome \<open>s\<close> of the race. When \<open>this.pins[pin]\<close> cannot be read any more, the callback
  itself throws and the promise the caller holds rejects with that TypeError.
\<close>

definition read_cleanup :: "pid \<Rightarrow> bref \<Rightarrow> nat \<Rightarrow> settle \<Rightarrow> world \<Rightarrow> world" where
  "read_cleanup p this n s w =
     (case pin_at this (Some (int n)) w of
        None \<Rightarrow> set_status p (Rejected TypeError) w
      | Some (f, _, _) \<Rightarrow>
          (case s of
             Rejected e \<Rightarrow>
               set_status p s
                 (upd_pin f n (\<lambda>x. x\<lparr>updating := False\<rparr>)
                    (upd_pin f n (\<lambda>x. x\<lparr>pin_value := 0\<rparr>) w))
           | _ \<Rightarrow> set_status p s (upd_pin f n (\<lambda>x. x\<lparr>updating := False\<rparr>) w)))"

text \<open>Settling a promise: only a pending promise changes, and its callbacks run.\<close>

definition settle_promise :: "pid \<Rightarrow> settle \<Rightarrow> world \<Rightarrow> world" where
  "settle_promise p s w =
     (if p < length (promises w) \<and> status (promises w ! p) = Pending then
        (case cleanup (promises w ! p) of
           Some (this, n) \<Rightarrow> read_cleanup p this n s w
         | None \<Rightarrow> fold (run_reaction s) (thens (promises w ! p)) (set_status p s w))
      else w)"

definition add_then :: "pid \<Rightarrow> reaction \<Rightarrow> world \<Rightarrow> world" where
  "add_then p r w =
     (case status (promises w ! p) of
        Pending \<Rightarrow>
          w\<lparr>promises := (promises w)[p := (promises w ! p)\<lparr>thens := thens (promises w ! p) @ [r]\<rparr>]\<rparr>
      | s \<Rightarrow> run_reaction s r w)"

definition set_timeout :: "nat \<Rightarrow> timer_action \<Rightarrow> world \<Rightarrow> world" where
  "set_timeout delay a w = w\<lparr>timers := timers w @ [(now w + int delay, a)]\<rparr>"

text \<open>
  A timer callback: \<open>timeoutReject\<close> rejects with the error \<open>timeout <delay>ms\<close>; the
  pacing timer of the writes calls \<open>resolve()\<close>.
\<close>

fun fire :: "timer_action \<Rightarrow> world \<Rightarrow> world" where
  "fire (TimeoutReject p d) w = settle_promise p (Rejected (TimeoutError d)) w"
| "fire (PaceResolve p) w = settle_promise p (Resolved VUndefined) w"

text \<open>One millisecond passes: the timers that are due run, in the order they were set.\<close>

definition tick :: "world \<Rightarrow> world" where
  "tick w =
     (let t = now w + 1;
          due = filter (\<lambda>x. fst x \<le> t) (timers w);
          w1 = w\<lparr>now := t, timers := filter (\<lambda>x. \<not> fst x \<le> t) (timers w)\<rparr>
      in fold (\<lambda>x. fire (snd x)) due w1)"

fun elapse :: "nat \<Rightarrow> world \<Rightarrow> world" where
  "elapse 0 w = w"
| "elapse (Suc n) w = elapse n (tick w)"

subsection \<open>ArduinoBoard: connecting\<close>

definition DEBUG :: bool where
  "DEBUG = False"

text \<open>
  \<open>setupFirmata\<close>: four once-listeners, then (with \<open>DEBUG\<close> off) the assignment
  \<open>this.firmata = firmata\<close>.
\<close>

definition setupFirmata :: "bref \<Rightarrow> fref \<Rightarrow> world \<Rightarrow> world" where
  "setupFirmata this f w =
     (let w1 = upd_firmata f
                 (\<lambda>fo. fo\<lparr>listeners := listeners fo @
                    [(SOpen, HOpen this), (SClose, HClose this),
                     (SDisconnect, HDisconnect this), (SError, HError this)]\<rparr>) w
      in if DEBUG \<and> firmata (boards w1 this) \<noteq> Some f then w1
         else upd_board this (\<lambda>b. b\<lparr>firmata := Some f\<rparr>) w1)"

text \<open>
  \<open>connectSerial(options)\<close> up to its first suspension. The promise it returns is
  \<open>request.catch(...)\<close>: nothing is raced against it. The pending port request is kept
  with the board it belongs to.
\<close>

definition connectSerial :: "bref \<Rightarrow> world \<Rightarrow> pid \<times> world" where
  "connectSerial this w =
     (case firmata (boards w this) of
        Some f \<Rightarrow> new_promise (Resolved (VBoard this)) None w
      | None \<Rightarrow>
          (let (p, w1) = new_promise Pending None
                           (upd_board this (\<lambda>b. b\<lparr>state := PortRequesting\<rparr>) w)
           in (p, w1\<lparr>requests := requests w1 @ [(p, this)]\<rparr>)))"

text \<open>
  The port request resolves: \<open>openSerialPort\<close> stores the port information, the \<open>then\<close>
  callback constructs a Firmata instance (\<open>fo\<close> gives the properties the protocol client
  starts with), calls \<open>setupFirmata\<close> and registers the once-listener for "ready".
\<close>

definition port_granted :: "pid \<Rightarrow> bref \<Rightarrow> port_info \<Rightarrow> firmata_obj \<Rightarrow> world \<Rightarrow> world" where
  "port_granted p this info fo w =
     (let w1 = upd_board this (\<lambda>b. b\<lparr>portInfo := Some info\<rparr>) w;
          f = nfirmatas w1;
          w2 = w1\<lparr>firmatas := (firmatas w1)(f := fo\<lparr>listeners := [], sent := []\<rparr>),
                  nfirmatas := Suc f\<rparr>;
          w3 = setupFirmata this f w2
      in upd_firmata f (\<lambda>x. x\<lparr>listeners := listeners x @ [(SReady, HReady this p)]\<rparr>) w3)"

text \<open>The port request rejects: the \<open>catch\<close> of \<open>connectSerial\<close> releases the board and
  rejects with the same reason.\<close>

definition port_denied :: "pid \<Rightarrow> bref \<Rightarrow> jserror \<Rightarrow> world \<Rightarrow> world" where
  "port_denied p this reason w = settle_promise p (Rejected reason) (releaseBoard this w)"

definition onBoarReady :: "bref \<Rightarrow> world \<Rightarrow> world option" where
  "onBoarReady this w =
     (case firmata (boards w this) of
        None \<Rightarrow> None
      | Some f \<Rightarrow> Some (upd_board this (\<lambda>b. b\<lparr>state := Ready\<rparr>) (call f I2cConfig w)))"

subsection \<open>Signals of a Firmata instance\<close>

text \<open>
  The body of each listener, run for a signal of the instance \<open>f\<close> with payload \<open>v\<close>.
  \<open>None\<close>: the listener threw. The five lifecycle listeners start with the comparison
  \<open>this.firmata !== firmata\<close>; the two sample listeners do not.
\<close>

fun run_handler :: "fref \<Rightarrow> int \<Rightarrow> handler \<Rightarrow> world \<Rightarrow> world option" where
  "run_handler f v (HOpen this) w =
     Some (if firmata (boards w this) \<noteq> Some f then w
           else upd_board this (\<lambda>b. b\<lparr>state := Connect\<rparr>) w)"
| "run_handler f v (HClose this) w =
     Some (if firmata (boards w this) \<noteq> Some f then w
           else if state (boards w this) = Disconnect then w
           else releaseBoard this w)"
| "run_handler f v (HDisconnect this) w =
     Some (if firmata (boards w this) \<noteq> Some f then w
           else if state (boards w this) = Disconnect then w
           else handleDisconnectError this w)"
| "run_handler f v (HError this) w =
     Some (if firmata (boards w this) \<noteq> Some f then w
           else if state (boards w this) = Disconnect then w
           else handleDisconnectError this w)"
| "run_handler f v (HReady this p) w =
     (if firmata (boards w this) \<noteq> Some f then Some w
      else map_option (settle_promise p (Resolved (VBoard this))) (onBoarReady this w))"
| "run_handler f v (HDigitalRead this n p) w =
     (case pin_at this (Some (int n)) w of
        None \<Rightarrow> None
      | Some (g, _, _) \<Rightarrow>
          Some (settle_promise p (Resolved (VNum (of_int v)))
                 (call g (ReportDigitalPin n 0)
                    (upd_pin g n (\<lambda>x. x\<lparr>pin_value := v, updateTime := Some (now w)\<rparr>) w))))"
| "run_handler f v (HAnalogRead this analogPin n p) w =
     (case pin_at this (Some (int n)) w of
        None \<Rightarrow> None
      | Some (g, _, _) \<Rightarrow>
          Some (settle_promise p (Resolved (VNum (of_int v)))
                 (call g (ReportAnalogPin analogPin 0)
                    (upd_pin g n (\<lambda>x. x\<lparr>pin_value := v, updateTime := Some (now w)\<rparr>) w))))"

text \<open>
  \<open>emit\<close> on a Firmata instance: the listeners registered for the signal at that moment
  run in order; each is a once-listener, detached just before it runs; a listener that
  throws ends the emission.
\<close>

fun run_handlers :: "fref \<Rightarrow> signal \<Rightarrow> int \<Rightarrow> handler list \<Rightarrow> world \<Rightarrow> world" where
  "run_handlers f s v [] w = w"
| "run_handlers f s v (h # hs) w =
     (let w1 = upd_firmata f (\<lambda>fo. fo\<lparr>listeners := remove1 (s, h) (listeners fo)\<rparr>) w
      in case run_handler f v h w1 of
           None \<Rightarrow> w1
         | Some w2 \<Rightarrow> run_handlers f s v hs w2)"

definition firmata_emit :: "fref \<Rightarrow> signal \<Rightarrow> int \<Rightarrow> world \<Rightarrow> world" where
  "firmata_emit f s v w =
     run_handlers f s v (map snd (filter (\<lambda>l. fst l = s) (listeners (firmatas w f)))) w"

subsection \<open>The environment\<close>

datatype event =
    PortGranted pid port_info firmata_obj
  | PortDenied pid jserror
  | Emit fref signal int
  | Elapse nat

fun step :: "event \<Rightarrow> world \<Rightarrow> world" where
  "step (PortGranted p info fo) w =
     (case map_of (requests w) p of
        None \<Rightarrow> w
      | Some this \<Rightarrow>
          port_granted p this info fo (w\<lparr>requests := filter (\<lambda>r. fst r \<noteq> p) (requests w)\<rparr>))"
| "step (PortDenied p reason) w =
     (case map_of (requests w) p of
        None \<Rightarrow> w
      | Some this \<Rightarrow>
          port_denied p this reason (w\<lparr>requests := filter (\<lambda>r. fst r \<noteq> p) (requests w)\<rparr>))"
| "step (Emit f s v) w = firmata_emit f s v w"
| "step (Elapse n) w = elapse n w"

definition run :: "event list \<Rightarrow> world \<Rightarrow> world" where
  "run es w = fold step es w"

subsection \<open>ArduinoBoard: pin reads\<close>

text \<open>
  The second test of both reads: a read is in flight, or \<open>updateTime\<close> is truthy (set and
  not 0) and less than the read interval has passed since.
\<close>

definition cached :: "int \<Rightarrow> int \<Rightarrow> pin \<Rightarrow> bool" where
  "cached t interval x =
     (updating x \<or>
      (case updateTime x of
         None \<Rightarrow> False
       | Some u \<Rightarrow> u \<noteq> 0 \<and> t - u < interval))"

text \<open>
  \<open>updateDigitalInput(pin)\<close> up to the promise it returns. \<open>Inl\<close>: the call itself
  throws (no protocol client, or no such pin). Otherwise the promise is already resolved
  with the cached value, or it is pending: the flag is set, the bias and the reporting are
  sent, a once-listener waits for the sample and a timer for the deadline.
\<close>

definition updateDigitalInput :: "bref \<Rightarrow> jsint \<Rightarrow> world \<Rightarrow> jserror + pid \<times> world" where
  "updateDigitalInput this i w =
     (case pin_at this i w of
        None \<Rightarrow> Inl TypeError
      | Some (f, n, x) \<Rightarrow>
          if mode x \<noteq> None \<and> mode x \<noteq> Some MODES_INPUT \<and> mode x \<noteq> Some MODES_PULLUP
          then Inr (new_promise (Resolved (VNum (of_int (pin_value x)))) None w)
          else if cached (now w) (digitalReadInterval (boards w this)) x
          then Inr (new_promise (Resolved (VNum (of_int (pin_value x)))) None w)
          else
            (let w1 = upd_pin f n (\<lambda>x. x\<lparr>updating := True\<rparr>) w;
                 (p, w2) = new_promise Pending (Some (this, n)) w1;
                 bias = (if inputBias x \<noteq> Some MODES_PULLUP then MODES_INPUT else MODES_PULLUP);
                 w3 = upd_pin f n (\<lambda>x. x\<lparr>inputBias := Some bias\<rparr>) w2;
                 w4 = call f (PinMode i bias) w3;
                 w5 = call f (ReportDigitalPin n 1) w4;
                 w6 = upd_firmata f
                        (\<lambda>fo. fo\<lparr>listeners := listeners fo @
                           [(SDigitalRead n, HDigitalRead this n p)]\<rparr>) w5;
                 d = updateDigitalInputWaitingTime (boards w this)
             in Inr (p, set_timeout d (TimeoutReject p d) w6)))"

text \<open>
  \<open>updateAnalogInput(analogPin)\<close>: the pin is looked up through \<open>analogPins\<close>; there is
  no test of the mode.
\<close>

definition updateAnalogInput :: "bref \<Rightarrow> nat \<Rightarrow> world \<Rightarrow> jserror + pid \<times> world" where
  "updateAnalogInput this analogPin w =
     (case firmata (boards w this) of
        None \<Rightarrow> Inl TypeError
      | Some f0 \<Rightarrow>
          if length (analogPins (firmatas w f0)) \<le> analogPin then Inl TypeError
          else
            (case pin_at this (Some (int (analogPins (firmatas w f0) ! analogPin))) w of
               None \<Rightarrow> Inl TypeError
             | Some (f, n, x) \<Rightarrow>
                 if cached (now w) (analogReadInterval (boards w this)) x
                 then Inr (new_promise (Resolved (VNum (of_int (pin_value x)))) None w)
                 else
                   (let w1 = upd_pin f n (\<lambda>x. x\<lparr>updating := True\<rparr>) w;
                        (p, w2) = new_promise Pending (Some (this, n)) w1;
                        w3 = call f (PinMode (Some (int analogPin)) MODES_ANALOG) w2;
                        w4 = call f (ReportAnalogPin analogPin 1) w3;
                        w5 = upd_firmata f
                               (\<lambda>fo. fo\<lparr>listeners := listeners fo @
                                  [(SAnalogRead analogPin, HAnalogRead this analogPin n p)]\<rparr>) w4;
                        d = updateAnalogInputWaitingTime (boards w this)
                    in Inr (p, set_timeout d (TimeoutReject p d) w5))))"

subsection \<open>ArduinoBoard: pin writes\<close>

definition pinMode :: "bref \<Rightarrow> jsint \<Rightarrow> nat \<Rightarrow> world \<Rightarrow> world option" where
  "pinMode this i m w =
     (case firmata (boards w this) of
        None \<Rightarrow> None
      | Some f \<Rightarrow> Some (call f (PinMode i m) w))"

text \<open>
  The shape of the three writes: \<open>new Promise(resolve => {this.firmata.<write>(...);
  setTimeout(() => resolve(), this.sendingInterval)})\<close>. A throw inside the executor (no
  protocol client) rejects the promise.
\<close>

definition paced :: "bref \<Rightarrow> command \<Rightarrow> world \<Rightarrow> pid \<times> world" where
  "paced this c w =
     (case firmata (boards w this) of
        None \<Rightarrow> new_promise (Rejected TypeError) None w
      | Some f \<Rightarrow>
          (let (p, w1) = new_promise Pending None w
           in (p, set_timeout (sendingInterval (boards w this)) (PaceResolve p) (call f c w1))))"

definition digitalWrite :: "bref \<Rightarrow> jsint \<Rightarrow> nat \<Rightarrow> bool \<Rightarrow> world \<Rightarrow> pid \<times> world" where
  "digitalWrite this i v enqueue w = paced this (DigitalWrite i v enqueue) w"

definition pwmWrite :: "bref \<Rightarrow> jsint \<Rightarrow> int \<Rightarrow> world \<Rightarrow> pid \<times> world" where
  "pwmWrite this i v w = paced this (PwmWrite i v) w"

definition servoWrite :: "bref \<Rightarrow> jsint \<Rightarrow> real \<Rightarrow> world \<Rightarrow> pid \<times> world" where
  "servoWrite this i v w = paced this (ServoWrite i v) w"

definition setInputBias :: "bref \<Rightarrow> jsint \<Rightarrow> bool \<Rightarrow> world \<Rightarrow> jserror + pid \<times> world" where
  "setInputBias this i pullUp w =
     (case pin_at this i w of
        None \<Rightarrow> Inl TypeError
      | Some (f, n, _) \<Rightarrow>
          (let bias = (if pullUp then MODES_PULLUP else MODES_INPUT);
               w1 = upd_pin f n (\<lambda>x. x\<lparr>inputBias := Some bias\<rparr>) w;
               (p, w2) = new_promise Pending None w1
           in Inr (p, set_timeout (sendingInterval (boards w this)) (PaceResolve p)
                        (call f (PinMode i bias) w2))))"

subsection \<open>ArduinoConnector: connecting or sharing\<close>

text \<open>The fields the constructor of \<open>ArduinoBoard\<close> sets.\<close>

definition new_board :: board_obj where
  "new_board =
     \<lparr>extensionId = None, state = Disconnect, firmata = None, portInfo = None,
      digitalReadInterval = 20, connectingWaitingTime = 1000, analogReadInterval = 20,
      sendingInterval = 10, updateDigitalInputWaitingTime = 100,
      updateAnalogInputWaitingTime = 100, releasedOnce = 0\<rparr>"

text \<open>
  \<open>ArduinoConnector.connectSerial(extensionId)\<close>: without Web Serial the promise is
  rejected; otherwise a new board is constructed, owned by the extension, and connected;
  the \<open>then\<close> callback waits on the promise of the board.
\<close>

definition connector_connectSerial :: "string \<Rightarrow> world \<Rightarrow> pid \<times> world" where
  "connector_connectSerial ext w =
     (if \<not> serial w then new_promise (Rejected NoWebSerial) None w
      else
        (let newBoard = nboards w;
             w1 = w\<lparr>boards := (boards w)(newBoard := new_board\<lparr>extensionId := Some ext\<rparr>),
                    nboards := Suc newBoard\<rparr>;
             (p, w2) = connectSerial newBoard w1
         in (p, add_then p ConnectorThen w2)))"

definition connectedBoard :: "string \<Rightarrow> world \<Rightarrow> pid \<times> world" where
  "connectedBoard ext w =
     (case findBoard None w of
        Some b \<Rightarrow> new_promise (Resolved (VBoard b)) None w
      | None \<Rightarrow> connector_connectSerial ext w)"

subsection \<open>ArduinoBlocks: the command surface\<close>

text \<open>
  A JavaScript number that is not NaN, and the three operations \<open>servoTurn\<close> and
  \<open>setAnalogLevel\<close> apply to one: \<open>c - x\<close>, \<open>Math.max(c, x)\<close> and \<open>Math.min(c, x)\<close> for a
  finite constant \<open>c\<close>. Finite numbers are reals here: the rounding of IEEE doubles is
  not modelled.
\<close>

datatype jsnumber = Finite real | PosInfinity | NegInfinity

fun js_minus :: "real \<Rightarrow> jsnumber \<Rightarrow> jsnumber" where
  "js_minus c (Finite x) = Finite (c - x)"
| "js_minus c PosInfinity = NegInfinity"
| "js_minus c NegInfinity = PosInfinity"

fun Math_max :: "real \<Rightarrow> jsnumber \<Rightarrow> jsnumber" where
  "Math_max c (Finite x) = Finite (max c x)"
| "Math_max c PosInfinity = PosInfinity"
| "Math_max c NegInfinity = Finite c"

fun Math_min :: "real \<Rightarrow> jsnumber \<Rightarrow> jsnumber" where
  "Math_min c (Finite x) = Finite (min c x)"
| "Math_min c PosInfinity = Finite c"
| "Math_min c NegInfinity = NegInfinity"

fun js_positive :: "jsnumber \<Rightarrow> bool" where
  "js_positive (Finite x) = (0 < x)"
| "js_positive PosInfinity = True"
| "js_positive NegInfinity = False"

text \<open>Argument values of a block, and the arguments the pin blocks receive.\<close>

datatype arg = Str string | Num jsnumber | Bool bool

record args =
  PIN :: arg
  LEVEL :: arg
  ANGLE :: arg
  BIAS :: arg
  VALUE :: arg

text \<open>
  The conversions the blocks call and the repository does not define: \<open>Cast.toNumber\<close>
  (never NaN), \<open>Cast.toBoolean\<close>, and the global \<open>parseInt(_, 10)\<close> applied to an argument
  value and to a number. They are parameters of every block.
\<close>

record cast =
  toNumber :: "arg \<Rightarrow> jsnumber"
  toBoolean :: "arg \<Rightarrow> bool"
  parseInt :: "arg \<Rightarrow> jsint"
  parseIntNum :: "jsnumber \<Rightarrow> jsint"

text \<open>Constants of the protocol client: the logic levels and the PWM resolution.\<close>

definition HIGH :: nat where "HIGH = 1"
definition LOW :: nat where "LOW = 0"
definition RESOLUTION_PWM :: real where "RESOLUTION_PWM = 255"

text \<open>
  What a block returns: a plain value, a promise seen through the \<open>then\<close>/\<open>catch\<close> pair
  the block chains on it, or nothing because the call threw.
\<close>

datatype chain = Direct | DigitalLevel | AnalogLevel

datatype block_ret = Plain jsvalue | Promised pid chain | Threw jserror

text \<open>\<open>Math.round((raw / 1023) * 1000) / 10\<close>; \<open>Math.round x\<close> is \<open>\<lfloor>x + 1/2\<rfloor>\<close>.\<close>

definition analog_level :: "real \<Rightarrow> real" where
  "analog_level raw = of_int (round ((raw / 1023) * 1000)) / 10"

text \<open>
  The value a chained promise settles with. \<open>getDigitalLevel\<close>: \<open>value === 0\<close> gives
  false, any other value true, a rejection false. \<open>getAnalogLevel\<close>: the level of the raw
  value, and 0 for a rejection.
\<close>

fun chain_apply :: "chain \<Rightarrow> settle \<Rightarrow> settle" where
  "chain_apply c Pending = Pending"
| "chain_apply Direct s = s"
| "chain_apply DigitalLevel (Resolved v) = Resolved (VBool (v \<noteq> VNum 0))"
| "chain_apply DigitalLevel (Rejected e) = Resolved (VBool False)"
| "chain_apply AnalogLevel (Resolved (VNum raw)) = Resolved (VNum (analog_level raw))"
| "chain_apply AnalogLevel (Resolved v) = Resolved VNaN"
| "chain_apply AnalogLevel (Rejected e) = Resolved (VNum 0)"

definition block_result :: "block_ret \<Rightarrow> world \<Rightarrow> settle" where
  "block_result r w =
     (case r of
        Plain v \<Rightarrow> Resolved v
      | Promised p c \<Rightarrow> chain_apply c (status (promises w ! p))
      | Threw e \<Rightarrow> Rejected e)"

definition resolved :: "jsvalue \<Rightarrow> world \<Rightarrow> block_ret \<times> world" where
  "resolved v w = (let (p, w1) = new_promise (Resolved v) None w in (Promised p Direct, w1))"

definition EXTENSION_ID :: string where
  "EXTENSION_ID = ''xcxArduino''"

text \<open>\<open>ArduinoBlocks.isConnected\<close>: there is a board and it is ready.\<close>

definition blocks_isConnected :: "world \<Rightarrow> bool" where
  "blocks_isConnected w =
     (case blocks_board w of
        None \<Rightarrow> False
      | Some b \<Rightarrow> isReady b w)"

text \<open>\<open>connectBoard\<close> (called by \<open>scan\<close>) and \<open>disconnectBoard\<close> (called by \<open>disconnect\<close>).\<close>

definition connectBoard :: "world \<Rightarrow> pid option \<times> world" where
  "connectBoard w =
     (if blocks_board w \<noteq> None \<and> isConnected (the (blocks_board w)) w then (None, w)
      else (let (p, w1) = connectedBoard EXTENSION_ID w in (Some p, add_then p BlocksThen w1)))"

definition disconnectBoard :: "world \<Rightarrow> world" where
  "disconnectBoard w =
     (case blocks_board w of
        None \<Rightarrow> w
      | Some b \<Rightarrow> disconnect b w)"

definition getAnalogLevel :: "nat \<Rightarrow> world \<Rightarrow> block_ret \<times> world" where
  "getAnalogLevel analogPin w =
     (if \<not> blocks_isConnected w then resolved (VNum 0) w
      else case updateAnalogInput (the (blocks_board w)) analogPin w of
             Inl e \<Rightarrow> (Threw e, w)
           | Inr (p, w1) \<Rightarrow> (Promised p AnalogLevel, w1))"

text \<open>The reporters \<open>a0\<close> to \<open>a5\<close>, by the number of the analog pin.\<close>

definition analogReporter :: "nat \<Rightarrow> world \<Rightarrow> block_ret \<times> world" where
  "analogReporter k w =
     (if \<not> blocks_isConnected w then (Plain (VNum 0), w)
      else getAnalogLevel k w)"

definition getDigitalLevel :: "cast \<Rightarrow> args \<Rightarrow> world \<Rightarrow> block_ret \<times> world" where
  "getDigitalLevel c a w =
     (if \<not> blocks_isConnected w then resolved (VBool False) w
      else if PIN a = Str [] then resolved (VBool False) w
      else case updateDigitalInput (the (blocks_board w))
                  (parseIntNum c (toNumber c (PIN a))) w of
             Inl e \<Rightarrow> (Threw e, w)
           | Inr (p, w1) \<Rightarrow> (Promised p DigitalLevel, w1))"

text \<open>
  \<open>setDigitalLevel\<close>. The last two tests of its condition compare the function
  \<open>toLowerCase\<close> itself with a string, which is false for every argument.
\<close>

definition setDigitalLevel :: "cast \<Rightarrow> args \<Rightarrow> world \<Rightarrow> block_ret \<times> world" where
  "setDigitalLevel c a w =
     (if \<not> blocks_isConnected w then (Plain (VStr ''not connected''), w)
      else if PIN a = Str [] then resolved (VStr ''pin not assigned'') w
      else
        (let pin = parseIntNum c (toNumber c (PIN a));
             v = (if toBoolean c (LEVEL a) \<or> js_positive (toNumber c (LEVEL a)) \<or> False \<or> False
                  then HIGH else LOW)
         in case pinMode (the (blocks_board w)) pin MODES_OUTPUT w of
              None \<Rightarrow> (Threw TypeError, w)
            | Some w1 \<Rightarrow>
                (let (p, w2) = digitalWrite (the (blocks_board w)) pin v False w1
                 in (Promised p Direct, w2))))"

text \<open>
  \<open>setAnalogLevel\<close>: the level is clamped to 0..100 percent and scaled to the PWM
  resolution.
\<close>

definition pwm_value :: "jsnumber \<Rightarrow> int" where
  "pwm_value level =
     (case Math_min 100 (Math_max 0 level) of
        Finite percent \<Rightarrow> round (RESOLUTION_PWM * (percent / 100))
      | _ \<Rightarrow> 0)"

definition setAnalogLevel :: "cast \<Rightarrow> args \<Rightarrow> world \<Rightarrow> block_ret \<times> world" where
  "setAnalogLevel c a w =
     (if \<not> blocks_isConnected w then (Plain (VStr ''not connected''), w)
      else if PIN a = Str [] then resolved (VStr ''pin not assigned'') w
      else
        (let pin = parseInt c (PIN a);
             v = pwm_value (toNumber c (LEVEL a))
         in case pinMode (the (blocks_board w)) pin MODES_PWM w of
              None \<Rightarrow> (Threw TypeError, w)
            | Some w1 \<Rightarrow>
                (let (p, w2) = pwmWrite (the (blocks_board w)) pin v w1
                 in (Promised p Direct, w2))))"

text \<open>
  \<open>setPinValuePwm\<close> ends in \<open>this.board.setPinValuePwm(pin, value)\<close>; the board has no
  such method, so past the two guards the call throws.
\<close>

definition setPinValuePwm :: "cast \<Rightarrow> args \<Rightarrow> world \<Rightarrow> block_ret \<times> world" where
  "setPinValuePwm c a w =
     (if \<not> blocks_isConnected w then (Plain (VStr ''not connected''), w)
      else if PIN a = Str [] then resolved (VStr ''pin not assigned'') w
      else (Threw TypeError, w))"

definition blocks_setInputBias :: "cast \<Rightarrow> args \<Rightarrow> world \<Rightarrow> block_ret \<times> world" where
  "blocks_setInputBias c a w =
     (if \<not> blocks_isConnected w then (Plain (VStr ''not connected''), w)
      else if PIN a = Str [] then resolved (VStr ''pin not assigned'') w
      else case setInputBias (the (blocks_board w)) (parseInt c (PIN a))
                  (BIAS a = Str ''pullUp'') w of
             Inl e \<Rightarrow> (Threw e, w)
           | Inr (p, w1) \<Rightarrow> (Promised p Direct, w1))"

text \<open>
  \<open>servoTurn\<close>: \<open>servoValue = 90 - angle\<close>, then \<open>Math.min(180, Math.max(0,
  servoValue))\<close>. The clamped value is finite; the last case of \<open>servo_value\<close> is never
  taken.
\<close>

definition servo_value :: "jsnumber \<Rightarrow> real" where
  "servo_value angle =
     (case Math_min 180 (Math_max 0 (js_minus 90 angle)) of
        Finite v \<Rightarrow> v
      | _ \<Rightarrow> 0)"

definition servoTurn :: "cast \<Rightarrow> args \<Rightarrow> world \<Rightarrow> block_ret \<times> world" where
  "servoTurn c a w =
     (if \<not> blocks_isConnected w then (Plain (VStr ''not connected''), w)
      else if PIN a = Str [] then resolved (VStr ''pin not assigned'') w
      else
        (let pin = parseInt c (PIN a);
             servoValue = servo_value (toNumber c (ANGLE a))
         in case pinMode (the (blocks_board w)) pin MODES_SERVO w of
              None \<Rightarrow> (Threw TypeError, w)
            | Some w1 \<Rightarrow>
                (let (p, w2) = servoWrite (the (blocks_board w)) pin servoValue w1
                 in (Promised p Direct, w2))))"

subsection \<open>The start of a session\<close>

definition new_firmata :: firmata_obj where
  "new_firmata =
     \<lparr>transport = True, isOpen = False, closeThrows = False, pins = [], analogPins = [],
      listeners = [], sent = []\<rparr>"

text \<open>
  The world after the extension is loaded: the connector has no boards, the blocks have
  registered \<open>updateBoard\<close> for both connector events, nothing is pending.
\<close>

definition initial :: "int \<Rightarrow> world" where
  "initial t =
     \<lparr>boards = (\<lambda>_. new_board), nboards = 0,
      firmatas = (\<lambda>_. new_firmata), nfirmatas = 0,
      promises = [], requests = [], timers = [], now = t, serial = True,
      connector_boards = [], connector_listeners = [BOARD_ADDED, BOARD_REMOVED],
      blocks_board = None, board_emitted = [], connector_emitted = [],
      runtime_emitted = []\<rparr>"

section \<open>Scenarios and predicates used in the properties\<close>

text \<open>
  A port with the descriptor of the specification's scenario, and a small board: four pins,
  of which pins 2 and 3 are the analog inputs A0 and A1.
\<close>

definition akadako :: port_info where
  "akadako = \<lparr>usbVendorId = Some 0x04D8, usbProductId = Some 0xE83A\<rparr>"

definition uno_pin :: pin where
  "uno_pin =
     \<lparr>supportedModes = [0, 1, 4, 11], mode = None, pin_value = 0, updateTime = None,
      updating = False, inputBias = None\<rparr>"

definition uno :: firmata_obj where
  "uno =
     \<lparr>transport = True, isOpen = True, closeThrows = False,
      pins = [uno_pin, uno_pin, uno_pin, uno_pin], analogPins = [2, 3],
      listeners = [], sent = []\<rparr>"

text \<open>
  A session in which the blocks scanned, the user granted the port, and the protocol
  client reported "open" and "ready": board 0 is ready on Firmata instance 0.
\<close>

definition session_ready :: world where
  "session_ready =
     run [PortGranted 0 akadako uno, Emit 0 SOpen 0, Emit 0 SReady 0]
       (snd (connectBoard (initial 1000)))"

text \<open>
  A block short-circuits to \<open>v\<close>: its result is \<open>v\<close> at once, and no board, protocol
  client, timer or port request has changed.
\<close>

definition short_circuits :: "jsvalue \<Rightarrow> block_ret \<times> world \<Rightarrow> world \<Rightarrow> bool" where
  "short_circuits v r w =
     (block_result (fst r) (snd r) = Resolved v \<and> firmatas (snd r) = firmatas w \<and>
      boards (snd r) = boards w \<and> timers (snd r) = timers w \<and> requests (snd r) = requests w)"

text \<open>One choice of the conversions, and block arguments with the pin left unassigned.\<close>

definition plain_cast :: cast where
  "plain_cast =
     \<lparr>toNumber = (\<lambda>a. case a of Num x \<Rightarrow> x | Bool b \<Rightarrow> Finite (if b then 1 else 0)
                         | Str s \<Rightarrow> Finite 0),
      toBoolean = (\<lambda>a. case a of Bool b \<Rightarrow> b | Num x \<Rightarrow> x \<noteq> Finite 0 | Str s \<Rightarrow> s \<noteq> []),
      parseInt = (\<lambda>a. case a of Num (Finite x) \<Rightarrow> Some (floor x) | _ \<Rightarrow> None),
      parseIntNum = (\<lambda>x. case x of Finite x \<Rightarrow> Some (floor x) | _ \<Rightarrow> None)\<rparr>"

definition no_pin :: args where
  "no_pin =
     \<lparr>PIN = Str [], LEVEL = Str ''1'', ANGLE = Num (Finite 45), BIAS = Str ''none'',
      VALUE = Num (Finite 0)\<rparr>"

definition servo_args :: "real \<Rightarrow> args" where
  "servo_args angle =
     \<lparr>PIN = Num (Finite 1), LEVEL = Str ''1'', ANGLE = Num (Finite angle), BIAS = Str ''none'',
      VALUE = Num (Finite 0)\<rparr>"

text \<open>
  A step that touches the registry and the host only: the boards, the protocol clients,
  the promises, the timers, the clock and the boards' own emissions stay as they are.
\<close>

definition registry_step :: "world \<Rightarrow> world \<Rightarrow> bool" where
  "registry_step w w' =
     (boards w' = boards w \<and> nboards w' = nboards w \<and> firmatas w' = firmatas w \<and>
      nfirmatas w' = nfirmatas w \<and> promises w' = promises w \<and> requests w' = requests w \<and>
      timers w' = timers w \<and> now w' = now w \<and> serial w' = serial w \<and>
      connector_listeners w' = connector_listeners w \<and> board_emitted w' = board_emitted w)"

text \<open>How many times the board \<open>this\<close> has emitted RELEASED.\<close>

definition released_count :: "bref \<Rightarrow> world \<Rightarrow> nat" where
  "released_count this w = length (filter (\<lambda>e. e = (this, RELEASED)) (board_emitted w))"

text \<open>The analog read of A0 in the ready session (pin 2 of the board).\<close>

definition session_analog :: "pid \<times> world" where
  "session_analog =
     (case updateAnalogInput 0 0 session_ready of
        Inr r \<Rightarrow> r
      | Inl e \<Rightarrow> (0, session_ready))"

text \<open>
  The promise a timer settles, and the two conditions on a world that say its pending
  timers and port requests belong to promises that exist.
\<close>

fun timer_pid :: "timer_action \<Rightarrow> pid" where
  "timer_pid (TimeoutReject p d) = p"
| "timer_pid (PaceResolve p) = p"

definition timers_fresh :: "world \<Rightarrow> bool" where
  "timers_fresh w = list_all (\<lambda>x. timer_pid (snd x) < length (promises w)) (timers w)"

definition requests_fresh :: "world \<Rightarrow> bool" where
  "requests_fresh w = list_all (\<lambda>r. fst r < length (promises w)) (requests w)"

text \<open>An outcome that is not a board: what a timer settles a promise with.\<close>

fun quiet :: "settle \<Rightarrow> bool" where
  "quiet (Resolved (VBoard b)) = False"
| "quiet s = True"

text \<open>A pin at rest after a failed read: the cached value is 0 and no read is in flight.\<close>

definition calm :: "pin \<Rightarrow> bool" where
  "calm x = (pin_value x = 0 \<and> \<not> updating x)"

text \<open>
  A step that settles promises with outcomes that are not boards: it changes the states of
  promises and, through the cleanup of reads, pins; nothing else.
\<close>

definition quiet_step :: "world \<Rightarrow> world \<Rightarrow> bool" where
  "quiet_step w w' =
     (boards w' = boards w \<and> nboards w' = nboards w \<and> nfirmatas w' = nfirmatas w \<and>
      requests w' = requests w \<and> serial w' = serial w \<and>
      connector_boards w' = connector_boards w \<and>
      connector_listeners w' = connector_listeners w \<and> blocks_board w' = blocks_board w \<and>
      board_emitted w' = board_emitted w \<and> connector_emitted w' = connector_emitted w \<and>
      runtime_emitted w' = runtime_emitted w \<and>
      length (promises w') = length (promises w) \<and>
      (\<forall>i. cleanup (promises w' ! i) = cleanup (promises w ! i)) \<and>
      (\<forall>g. length (pins (firmatas w' g)) = length (pins (firmatas w g)) \<and>
           sent (firmatas w' g) = sent (firmatas w g) \<and>
           listeners (firmatas w' g) = listeners (firmatas w g)) \<and>
      (\<forall>g m. calm (pins (firmatas w g) ! m) \<longrightarrow> calm (pins (firmatas w' g) ! m)))"

text \<open>
  A read of pin \<open>n\<close> of the board \<open>this\<close> is in flight on the promise \<open>p\<close>; and the state
  after its deadline: the promise rejected with the timeout error, the pin at rest.
\<close>

definition inflight :: "pid \<Rightarrow> bref \<Rightarrow> nat \<Rightarrow> fref \<Rightarrow> world \<Rightarrow> bool" where
  "inflight p this n f w =
     (p < length (promises w) \<and> status (promises w ! p) = Pending \<and>
      cleanup (promises w ! p) = Some (this, n) \<and> firmata (boards w this) = Some f \<and>
      n < length (pins (firmatas w f)))"

definition timed_out :: "pid \<Rightarrow> bref \<Rightarrow> nat \<Rightarrow> fref \<Rightarrow> nat \<Rightarrow> world \<Rightarrow> bool" where
  "timed_out p this n f d w =
     (status (promises w ! p) = Rejected (TimeoutError d) \<and>
      firmata (boards w this) = Some f \<and> calm (pins (firmatas w f) ! n))"

definition fire_all :: "(int \<times> timer_action) list \<Rightarrow> world \<Rightarrow> world" where
  "fire_all xs w = fold (\<lambda>x. fire (snd x)) xs w"

text \<open>
  The state the specification describes after a read timed out, relative to the world \<open>w\<close>
  in which the read was requested: the promise is rejected with the timeout error of
  \<open>d\<close> ms, the pin's cached value is 0 and its flag is clear, and every board is as it
  was in \<open>w\<close> (same state, same protocol client) and has emitted nothing.
\<close>

definition deadline_passed :: "pid \<Rightarrow> fref \<Rightarrow> nat \<Rightarrow> nat \<Rightarrow> world \<Rightarrow> world \<Rightarrow> bool" where
  "deadline_passed p f n d w w2 =
     (status (promises w2 ! p) = Rejected (TimeoutError d) \<and>
      pin_value (pins (firmatas w2 f) ! n) = 0 \<and> \<not> updating (pins (firmatas w2 f) ! n) \<and>
      boards w2 = boards w \<and> board_emitted w2 = board_emitted w)"

text \<open>The state after the sample \<open>v\<close> arrived in time.\<close>

definition sample_stored :: "pid \<Rightarrow> fref \<Rightarrow> nat \<Rightarrow> int \<Rightarrow> world \<Rightarrow> world \<Rightarrow> bool" where
  "sample_stored p f n v w w2 =
     (status (promises w2 ! p) = Resolved (VNum (of_int v)) \<and>
      pin_value (pins (firmatas w2 f) ! n) = v \<and> \<not> updating (pins (firmatas w2 f) ! n) \<and>
      updateTime (pins (firmatas w2 f) ! n) = Some (now w) \<and>
      boards w2 = boards w \<and> board_emitted w2 = board_emitted w \<and> now w2 = now w)"

text \<open>The digital read of pin 1 in the ready session.\<close>

definition session_digital :: "pid \<times> world" where
  "session_digital =
     (case updateDigitalInput 0 (Some 1) session_ready of
        Inr r \<Rightarrow> r
      | Inl e \<Rightarrow> (0, session_ready))"




text \<open>
  The board a lifecycle listener belongs to (\<open>None\<close> for the sample listeners), and a
  listener that is stale for the instance \<open>f\<close>: a lifecycle listener of a board whose
  current protocol client is not \<open>f\<close>.
\<close>

fun lifecycle_handler :: "handler \<Rightarrow> bref option" where
  "lifecycle_handler (HOpen this) = Some this"
| "lifecycle_handler (HClose this) = Some this"
| "lifecycle_handler (HDisconnect this) = Some this"
| "lifecycle_handler (HError this) = Some this"
| "lifecycle_handler (HReady this p) = Some this"
| "lifecycle_handler (HDigitalRead this n p) = None"
| "lifecycle_handler (HAnalogRead this k n p) = None"

definition stale_listener :: "fref \<Rightarrow> world \<Rightarrow> handler \<Rightarrow> bool" where
  "stale_listener f w h =
     (case lifecycle_handler h of
        None \<Rightarrow> False
      | Some this \<Rightarrow> firmata (boards w this) \<noteq> Some f)"

text \<open>The listeners of the instance \<open>f\<close> that a signal \<open>s\<close> would run.\<close>

definition listeners_for :: "fref \<Rightarrow> signal \<Rightarrow> world \<Rightarrow> handler list" where
  "listeners_for f s w = map snd (filter (\<lambda>l. fst l = s) (listeners (firmatas w f)))"

text \<open>
  The world \<open>w'\<close> is the world \<open>w\<close> but for the list of listeners still attached to the
  instance \<open>f\<close>.
\<close>

definition only_listeners_differ :: "fref \<Rightarrow> world \<Rightarrow> world \<Rightarrow> bool" where
  "only_listeners_differ f w w' =
     (w' = upd_firmata f (\<lambda>fo. fo\<lparr>listeners := listeners (firmatas w' f)\<rparr>) w)"

text \<open>
  A session in which \<open>transport.close()\<close> throws: after the blocks disconnect, board 0 is
  released, its old protocol client keeps the listeners that were not yet used.
\<close>

definition uno_stuck :: firmata_obj where
  "uno_stuck = uno\<lparr>closeThrows := True\<rparr>"

definition session_stale :: world where
  "session_stale =
     disconnectBoard
       (run [PortGranted 0 akadako uno_stuck, Emit 0 SOpen 0, Emit 0 SReady 0]
          (snd (connectBoard (initial 1000))))"

text \<open>
  What the specification promises of a connect call whose "ready" did not come in time:
  the call has failed and the board is released.
\<close>

definition handshake_timed_out :: "pid \<Rightarrow> bref \<Rightarrow> world \<Rightarrow> bool" where
  "handshake_timed_out p this w =
     ((case status (promises w ! p) of Rejected e \<Rightarrow> True | _ \<Rightarrow> False) \<and>
      state (boards w this) = Disconnect \<and> firmata (boards w this) = None)"

text \<open>
  Board 0 connects on its own: the port is granted and the protocol client reports
  "open", but never "ready".
\<close>

definition session_waiting :: world where
  "session_waiting =
     run [PortGranted 0 akadako uno, Emit 0 SOpen 0] (snd (connectSerial 0 (initial 1000)))"

text \<open>
  A read of pin \<open>n\<close> of the board \<open>this\<close> is still pending on the promise \<open>p\<close>, but the
  board has been released meanwhile and has no protocol client; and a promise rejected
  with the TypeError of a failed cleanup.
\<close>

definition orphaned :: "pid \<Rightarrow> bref \<Rightarrow> nat \<Rightarrow> world \<Rightarrow> bool" where
  "orphaned p this n w =
     (p < length (promises w) \<and> status (promises w ! p) = Pending \<and>
      cleanup (promises w ! p) = Some (this, n) \<and> firmata (boards w this) = None)"

definition type_errored :: "pid \<Rightarrow> world \<Rightarrow> bool" where
  "type_errored p w = (status (promises w ! p) = Rejected TypeError)"

text \<open>
  No board but \<open>this\<close> has the Firmata instance \<open>f\<close> as its protocol client (each board
  creates its own instance in \<open>connectSerial\<close>); and no board at all has it.
\<close>

definition sole_owner :: "bref \<Rightarrow> fref \<Rightarrow> world \<Rightarrow> bool" where
  "sole_owner this f w = (\<forall>b. b \<noteq> this \<longrightarrow> firmata (boards w b) \<noteq> Some f)"

definition ownerless :: "fref \<Rightarrow> world \<Rightarrow> bool" where
  "ownerless f w = (\<forall>b. firmata (boards w b) \<noteq> Some f)"

text \<open>
  The state after the deadline of a read whose board was released while the read was in
  flight: the promise is rejected with a TypeError, the pin \<open>n\<close> of the instance \<open>f\<close> the
  read was requested on still has its flag set and still holds the value \<open>v\<close>, and the
  board \<open>this\<close> is disconnected, without protocol client.
\<close>

definition cleanup_failed :: "pid \<Rightarrow> bref \<Rightarrow> fref \<Rightarrow> nat \<Rightarrow> int \<Rightarrow> world \<Rightarrow> bool" where
  "cleanup_failed p this f n v w2 =
     (status (promises w2 ! p) = Rejected TypeError \<and>
      updating (pins (firmatas w2 f) ! n) \<and> pin_value (pins (firmatas w2 f) ! n) = v \<and>
      state (boards w2 this) = Disconnect \<and> firmata (boards w2 this) = None)"

text \<open>
  A ready session on a Firmata instance whose pin 1 holds the value 1 and whose pin 2
  (the analog pin A0) holds 512; its digital read of pin 1 and its analog read of A0.
\<close>

definition uno_high :: firmata_obj where
  "uno_high =
     uno\<lparr>pins := [uno_pin, uno_pin\<lparr>pin_value := 1\<rparr>, uno_pin\<lparr>pin_value := 512\<rparr>, uno_pin]\<rparr>"

definition session_high :: world where
  "session_high =
     run [PortGranted 0 akadako uno_high, Emit 0 SOpen 0, Emit 0 SReady 0]
       (snd (connectBoard (initial 1000)))"

definition session_high_read :: "pid \<times> world" where
  "session_high_read =
     (case updateDigitalInput 0 (Some 1) session_high of
        Inr r \<Rightarrow> r
      | Inl e \<Rightarrow> (0, session_high))"

definition session_high_analog :: "pid \<times> world" where
  "session_high_analog =
     (case updateAnalogInput 0 0 session_high of
        Inr r \<Rightarrow> r
      | Inl e \<Rightarrow> (0, session_high))"

section \<open>Properties\<close>

subsection \<open>Evaluation of the scenarios\<close>

lemmas world_defs = initial_def connectBoard_def connectedBoard_def findBoard_def
  connector_connectSerial_def connectSerial_def new_promise_def add_then_def new_board_def
  run_def port_granted_def setupFirmata_def DEBUG_def upd_firmata_def upd_board_def
  firmata_emit_def onBoarReady_def call_def settle_promise_def set_status_def run_reaction_def
  addBoard_def connector_emit_def updateBoard_def isConnected_def runtime_emit_def
  EXTENSION_ID_def

lemma session_ready_facts:
  "state (boards session_ready 0) = Ready"
  "connector_boards session_ready = [0]"
  "blocks_board session_ready = Some 0"
  "firmata (boards session_ready 0) = Some 0"
  "nboards session_ready = 1"
  "nfirmatas session_ready = 1"
  "requests session_ready = []"
  "length (promises session_ready) = 1"
  "sent (firmatas session_ready 0) = [I2cConfig]"
  by (simp_all add: session_ready_def world_defs uno_def akadako_def)

lemma session_ready_connected: "blocks_isConnected session_ready"
  by (simp add: blocks_isConnected_def isReady_def session_ready_facts)

lemma initial_not_connected: "\<not> blocks_isConnected (initial t)"
  by (simp add: blocks_isConnected_def initial_def)

subsection \<open>The registry\<close>

lemma updateBoard_blocks_only: "\<exists>b. updateBoard w = w\<lparr>blocks_board := b\<rparr>"
  by (auto simp: updateBoard_def split: option.splits intro: exI[of _ "blocks_board w"])

lemma updateBoards_blocks_only: "\<exists>b. fold (\<lambda>_. updateBoard) xs w = w\<lparr>blocks_board := b\<rparr>"
proof (induction xs arbitrary: w)
  case Nil
  show ?case by (auto intro: exI[of _ "blocks_board w"])
next
  case (Cons x xs)
  obtain b where b: "updateBoard w = w\<lparr>blocks_board := b\<rparr>"
    using updateBoard_blocks_only by blast
  obtain b' where
    "fold (\<lambda>_. updateBoard) xs (w\<lparr>blocks_board := b\<rparr>) = w\<lparr>blocks_board := b\<rparr>\<lparr>blocks_board := b'\<rparr>"
    using Cons.IH by blast
  then show ?case using b by (auto intro: exI[of _ b'])
qed

lemma connector_emit_shape:
  "\<exists>b. connector_emit ev x w =
        w\<lparr>connector_emitted := connector_emitted w @ [(ev, x)], blocks_board := b\<rparr>"
  unfolding connector_emit_def
  using updateBoards_blocks_only
    [of "filter (\<lambda>e. e = ev) (connector_listeners w)"
        "w\<lparr>connector_emitted := connector_emitted w @ [(ev, x)]\<rparr>"]
  by auto

lemma addBoard_shape:
  "\<exists>b. addBoard newBoard w =
        w\<lparr>connector_boards := connector_boards w @ [newBoard],
          connector_emitted := connector_emitted w @ [(BOARD_ADDED, newBoard)],
          blocks_board := b\<rparr>"
  unfolding addBoard_def
  using connector_emit_shape
    [of BOARD_ADDED newBoard "w\<lparr>connector_boards := connector_boards w @ [newBoard]\<rparr>"]
  by auto

lemma removeBoard_shape:
  "removal \<in> set (connector_boards w) \<Longrightarrow>
   \<exists>b. removeBoard removal w =
        w\<lparr>connector_boards := remove1 removal (connector_boards w),
          connector_emitted := connector_emitted w @ [(BOARD_ADDED, removal)],
          blocks_board := b\<rparr>"
  unfolding removeBoard_def
  using connector_emit_shape
    [of BOARD_ADDED removal "w\<lparr>connector_boards := remove1 removal (connector_boards w)\<rparr>"]
  by auto

lemma removeBoard_absent: "removal \<notin> set (connector_boards w) \<Longrightarrow> removeBoard removal w = w"
  by (simp add: removeBoard_def)

lemma addBoard_emits_BOARD_ADDED:
  "connector_boards (addBoard newBoard w) = connector_boards w @ [newBoard] \<and>
   connector_emitted (addBoard newBoard w) = connector_emitted w @ [(BOARD_ADDED, newBoard)]"
  using addBoard_shape [of newBoard w] by auto

text \<open>
  C6. Removing a board that is in the registry deletes its first occurrence from the
  ordered collection, and the event the connector emits for it is \<open>BOARD_ADDED\<close> with the
  removed board as payload: the emission log grows by exactly that entry, so no
  \<open>BOARD_REMOVED\<close> event is emitted. (Adding a board appends it and emits \<open>BOARD_ADDED\<close>;
  removing an absent board changes nothing: \<open>addBoard_emits_BOARD_ADDED\<close>,
  \<open>removeBoard_absent\<close>.)
\<close>

theorem removeBoard_emits_BOARD_ADDED:
  assumes "removal \<in> set (connector_boards w)"
  shows "connector_boards (removeBoard removal w) = remove1 removal (connector_boards w) \<and>
         connector_emitted (removeBoard removal w) =
           connector_emitted w @ [(BOARD_ADDED, removal)]"
  using removeBoard_shape [OF assms] by auto

theorem removeBoard_emits_BOARD_ADDED_witness:
  "connector_boards (removeBoard 0 session_ready) = [] \<and>
   connector_emitted (removeBoard 0 session_ready) = [(BOARD_ADDED, 0), (BOARD_ADDED, 0)]"
proof -
  have in_registry: "0 \<in> set (connector_boards session_ready)"
    by (simp add: session_ready_facts)
  have log: "connector_emitted session_ready = [(BOARD_ADDED, 0)]"
    by (simp add: session_ready_def world_defs uno_def akadako_def)
  show ?thesis
    using removeBoard_emits_BOARD_ADDED [OF in_registry] log
    by (simp add: session_ready_facts)
qed

text \<open>
  C7. Whenever \<open>findBoard()\<close> without a filter returns a board, \<open>connectedBoard\<close> returns a
  promise that is already resolved with that same board; the world changes by this one
  promise only: no board is constructed, no port is requested, no protocol client is
  created, and the registry is as before.
\<close>

theorem connectedBoard_shares_board:
  assumes "findBoard None w = Some b"
  shows "connectedBoard ext w =
           (length (promises w),
            w\<lparr>promises := promises w @
                 [\<lparr>status = Resolved (VBoard b), cleanup = None, thens = []\<rparr>]\<rparr>) \<and>
         b = hd (connector_boards w) \<and> b \<in> set (connector_boards w)"
  using assms
  by (auto simp: connectedBoard_def new_promise_def findBoard_def split: if_splits)

text \<open>
  The scenario of C7: the registry is empty, a first acquire opens board 0 on the port
  with descriptor (0x04D8, 0xE83A); a second acquire by another extension, made while
  board 0 is ready, resolves with board 0, and there is still one board, one protocol
  client and no pending port request.
\<close>

theorem connectedBoard_shares_board_witness:
  "state (boards session_ready 0) = Ready \<and>
   fst (connectedBoard ''ext-B'' session_ready) = 1 \<and>
   status (promises (snd (connectedBoard ''ext-B'' session_ready)) ! 1) = Resolved (VBoard 0) \<and>
   nboards (snd (connectedBoard ''ext-B'' session_ready)) = 1 \<and>
   nfirmatas (snd (connectedBoard ''ext-B'' session_ready)) = 1 \<and>
   requests (snd (connectedBoard ''ext-B'' session_ready)) = []"
proof -
  have found: "findBoard None session_ready = Some 0"
    by (simp add: findBoard_def session_ready_facts)
  show ?thesis
    using connectedBoard_shares_board [OF found, of "''ext-B''"]
    by (simp add: session_ready_facts nth_append)
qed

subsection \<open>The command surface\<close>

lemma resolved_short_circuits: "short_circuits v (resolved v w) w"
  by (simp add: short_circuits_def resolved_def new_promise_def block_result_def)

lemma plain_short_circuits: "short_circuits v (Plain v, w) w"
  by (simp add: short_circuits_def block_result_def)

text \<open>
  C8. While the blocks are not connected (no board, or a board that is not ready), the
  digital read gives false, the analog reads give 0 and every write gives the string
  "not connected", as a value and not as an exception, and the world is untouched. While
  they are connected, an unassigned pin (\<open>PIN\<close> is the empty string) makes the digital read
  give false and every write give "pin not assigned", again with no board, protocol
  client, timer or port request changed.
\<close>

theorem blocks_guards:
  "(\<not> blocks_isConnected w \<longrightarrow>
      short_circuits (VBool False) (getDigitalLevel c a w) w \<and>
      short_circuits (VNum 0) (getAnalogLevel k w) w \<and>
      short_circuits (VNum 0) (analogReporter k w) w \<and>
      setDigitalLevel c a w = (Plain (VStr ''not connected''), w) \<and>
      setAnalogLevel c a w = (Plain (VStr ''not connected''), w) \<and>
      setPinValuePwm c a w = (Plain (VStr ''not connected''), w) \<and>
      blocks_setInputBias c a w = (Plain (VStr ''not connected''), w) \<and>
      servoTurn c a w = (Plain (VStr ''not connected''), w)) \<and>
   (blocks_isConnected w \<longrightarrow> PIN a = Str [] \<longrightarrow>
      short_circuits (VBool False) (getDigitalLevel c a w) w \<and>
      short_circuits (VStr ''pin not assigned'') (setDigitalLevel c a w) w \<and>
      short_circuits (VStr ''pin not assigned'') (setAnalogLevel c a w) w \<and>
      short_circuits (VStr ''pin not assigned'') (setPinValuePwm c a w) w \<and>
      short_circuits (VStr ''pin not assigned'') (blocks_setInputBias c a w) w \<and>
      short_circuits (VStr ''pin not assigned'') (servoTurn c a w) w)"
  by (simp add: getDigitalLevel_def getAnalogLevel_def analogReporter_def setDigitalLevel_def
      setAnalogLevel_def setPinValuePwm_def blocks_setInputBias_def servoTurn_def
      resolved_short_circuits plain_short_circuits)

theorem blocks_guards_witness:
  "short_circuits (VBool False) (getDigitalLevel plain_cast no_pin (initial 1000)) (initial 1000) \<and>
   short_circuits (VNum 0) (analogReporter 0 (initial 1000)) (initial 1000) \<and>
   servoTurn plain_cast no_pin (initial 1000) = (Plain (VStr ''not connected''), initial 1000) \<and>
   short_circuits (VStr ''pin not assigned'') (servoTurn plain_cast no_pin session_ready)
     session_ready \<and>
   short_circuits (VBool False) (getDigitalLevel plain_cast no_pin session_ready) session_ready"
  using blocks_guards [of "initial 1000" plain_cast no_pin 0]
    blocks_guards [of session_ready plain_cast no_pin 0]
    session_ready_connected initial_not_connected [of 1000]
  by (simp add: no_pin_def)

lemma analog_level_range:
  assumes "0 \<le> v" "v \<le> 1023"
  shows "0 \<le> analog_level v \<and> analog_level v \<le> 100"
proof -
  have lower: "0 \<le> v / 1023 * 1000" using assms by simp
  have upper: "v / 1023 * 1000 \<le> 1000" using assms by simp
  have "round (0::real) \<le> round (v / 1023 * 1000)" using lower by (rule round_mono)
  then have lo: "0 \<le> round (v / 1023 * 1000)" by simp
  have "round (v / 1023 * 1000) \<le> round (1000::real)" using upper by (rule round_mono)
  then have hi: "round (v / 1023 * 1000) \<le> 1000" by simp
  show ?thesis using lo hi by (simp add: analog_level_def)
qed

text \<open>
  C9. When the blocks are connected and the analog read returns a promise \<open>p\<close>, the
  reporter returns \<open>p\<close> seen through its \<open>then\<close>/\<open>catch\<close> pair: once \<open>p\<close> is resolved with a
  raw value \<open>v\<close> the reporter gives \<open>round((v / 1023) * 1000) / 10\<close>, a number of tenths
  that lies between 0 and 100 when \<open>v\<close> lies between 0 and 1023; once \<open>p\<close> is rejected the
  reporter gives 0.
\<close>

theorem getAnalogLevel_percentage:
  assumes "blocks_isConnected w"
    and "updateAnalogInput (the (blocks_board w)) k w = Inr (p, w1)"
  shows "getAnalogLevel k w = (Promised p AnalogLevel, w1) \<and>
         (status (promises w2 ! p) = Resolved (VNum v) \<longrightarrow>
            block_result (fst (getAnalogLevel k w)) w2 =
              Resolved (VNum (of_int (round ((v / 1023) * 1000)) / 10)) \<and>
            (0 \<le> v \<and> v \<le> 1023 \<longrightarrow>
               0 \<le> of_int (round ((v / 1023) * 1000)) / (10::real) \<and>
               of_int (round ((v / 1023) * 1000)) / (10::real) \<le> 100)) \<and>
         (status (promises w2 ! p) = Rejected e \<longrightarrow>
            block_result (fst (getAnalogLevel k w)) w2 = Resolved (VNum 0))"
  using assms analog_level_range [of v]
  by (simp add: getAnalogLevel_def block_result_def analog_level_def)

subsection \<open>What the elementary updates change\<close>

lemma upd_board_fields [simp]:
  "boards (upd_board this g w) = (boards w)(this := g (boards w this))"
  "nboards (upd_board this g w) = nboards w"
  "firmatas (upd_board this g w) = firmatas w"
  "nfirmatas (upd_board this g w) = nfirmatas w"
  "promises (upd_board this g w) = promises w"
  "requests (upd_board this g w) = requests w"
  "timers (upd_board this g w) = timers w"
  "now (upd_board this g w) = now w"
  "serial (upd_board this g w) = serial w"
  "connector_boards (upd_board this g w) = connector_boards w"
  "connector_listeners (upd_board this g w) = connector_listeners w"
  "blocks_board (upd_board this g w) = blocks_board w"
  "board_emitted (upd_board this g w) = board_emitted w"
  "connector_emitted (upd_board this g w) = connector_emitted w"
  "runtime_emitted (upd_board this g w) = runtime_emitted w"
  by (simp_all add: upd_board_def)

lemma upd_firmata_fields [simp]:
  "boards (upd_firmata f g w) = boards w"
  "nboards (upd_firmata f g w) = nboards w"
  "firmatas (upd_firmata f g w) = (firmatas w)(f := g (firmatas w f))"
  "nfirmatas (upd_firmata f g w) = nfirmatas w"
  "promises (upd_firmata f g w) = promises w"
  "requests (upd_firmata f g w) = requests w"
  "timers (upd_firmata f g w) = timers w"
  "now (upd_firmata f g w) = now w"
  "serial (upd_firmata f g w) = serial w"
  "connector_boards (upd_firmata f g w) = connector_boards w"
  "connector_listeners (upd_firmata f g w) = connector_listeners w"
  "blocks_board (upd_firmata f g w) = blocks_board w"
  "board_emitted (upd_firmata f g w) = board_emitted w"
  "connector_emitted (upd_firmata f g w) = connector_emitted w"
  "runtime_emitted (upd_firmata f g w) = runtime_emitted w"
  by (simp_all add: upd_firmata_def)

lemma call_fields [simp]:
  "boards (call f c w) = boards w"
  "nboards (call f c w) = nboards w"
  "firmatas (call f c w) = (firmatas w)(f := (firmatas w f)\<lparr>sent := sent (firmatas w f) @ [c]\<rparr>)"
  "nfirmatas (call f c w) = nfirmatas w"
  "promises (call f c w) = promises w"
  "requests (call f c w) = requests w"
  "timers (call f c w) = timers w"
  "now (call f c w) = now w"
  "serial (call f c w) = serial w"
  "connector_boards (call f c w) = connector_boards w"
  "connector_listeners (call f c w) = connector_listeners w"
  "blocks_board (call f c w) = blocks_board w"
  "board_emitted (call f c w) = board_emitted w"
  "connector_emitted (call f c w) = connector_emitted w"
  "runtime_emitted (call f c w) = runtime_emitted w"
  by (simp_all add: call_def upd_firmata_def)

lemma upd_pin_fields [simp]:
  "boards (upd_pin f n g w) = boards w"
  "nboards (upd_pin f n g w) = nboards w"
  "firmatas (upd_pin f n g w) = (firmatas w)(f := (firmatas w f)\<lparr>pins := (pins (firmatas w f))[n := g (pins (firmatas w f) ! n)]\<rparr>)"
  "nfirmatas (upd_pin f n g w) = nfirmatas w"
  "promises (upd_pin f n g w) = promises w"
  "requests (upd_pin f n g w) = requests w"
  "timers (upd_pin f n g w) = timers w"
  "now (upd_pin f n g w) = now w"
  "serial (upd_pin f n g w) = serial w"
  "connector_boards (upd_pin f n g w) = connector_boards w"
  "connector_listeners (upd_pin f n g w) = connector_listeners w"
  "blocks_board (upd_pin f n g w) = blocks_board w"
  "board_emitted (upd_pin f n g w) = board_emitted w"
  "connector_emitted (upd_pin f n g w) = connector_emitted w"
  "runtime_emitted (upd_pin f n g w) = runtime_emitted w"
  by (simp_all add: upd_pin_def upd_firmata_def)

lemma runtime_emit_fields [simp]:
  "boards (runtime_emit e w) = boards w"
  "nboards (runtime_emit e w) = nboards w"
  "firmatas (runtime_emit e w) = firmatas w"
  "nfirmatas (runtime_emit e w) = nfirmatas w"
  "promises (runtime_emit e w) = promises w"
  "requests (runtime_emit e w) = requests w"
  "timers (runtime_emit e w) = timers w"
  "now (runtime_emit e w) = now w"
  "serial (runtime_emit e w) = serial w"
  "connector_boards (runtime_emit e w) = connector_boards w"
  "connector_listeners (runtime_emit e w) = connector_listeners w"
  "blocks_board (runtime_emit e w) = blocks_board w"
  "board_emitted (runtime_emit e w) = board_emitted w"
  "connector_emitted (runtime_emit e w) = connector_emitted w"
  "runtime_emitted (runtime_emit e w) = runtime_emitted w @ [e]"
  by (simp_all add: runtime_emit_def)

lemma set_status_fields [simp]:
  "boards (set_status p s w) = boards w"
  "nboards (set_status p s w) = nboards w"
  "firmatas (set_status p s w) = firmatas w"
  "nfirmatas (set_status p s w) = nfirmatas w"
  "promises (set_status p s w) = (promises w)[p := (promises w ! p)\<lparr>status := s\<rparr>]"
  "requests (set_status p s w) = requests w"
  "timers (set_status p s w) = timers w"
  "now (set_status p s w) = now w"
  "serial (set_status p s w) = serial w"
  "connector_boards (set_status p s w) = connector_boards w"
  "connector_listeners (set_status p s w) = connector_listeners w"
  "blocks_board (set_status p s w) = blocks_board w"
  "board_emitted (set_status p s w) = board_emitted w"
  "connector_emitted (set_status p s w) = connector_emitted w"
  "runtime_emitted (set_status p s w) = runtime_emitted w"
  by (simp_all add: set_status_def)

lemma set_timeout_fields [simp]:
  "boards (set_timeout d a w) = boards w"
  "nboards (set_timeout d a w) = nboards w"
  "firmatas (set_timeout d a w) = firmatas w"
  "nfirmatas (set_timeout d a w) = nfirmatas w"
  "promises (set_timeout d a w) = promises w"
  "requests (set_timeout d a w) = requests w"
  "timers (set_timeout d a w) = timers w @ [(now w + int d, a)]"
  "now (set_timeout d a w) = now w"
  "serial (set_timeout d a w) = serial w"
  "connector_boards (set_timeout d a w) = connector_boards w"
  "connector_listeners (set_timeout d a w) = connector_listeners w"
  "blocks_board (set_timeout d a w) = blocks_board w"
  "board_emitted (set_timeout d a w) = board_emitted w"
  "connector_emitted (set_timeout d a w) = connector_emitted w"
  "runtime_emitted (set_timeout d a w) = runtime_emitted w"
  by (simp_all add: set_timeout_def)

lemma new_promise_fields [simp]:
  "fst (new_promise s c w) = length (promises w)"
  "snd (new_promise s c w) =
     w\<lparr>promises := promises w @ [\<lparr>status = s, cleanup = c, thens = []\<rparr>]\<rparr>"
  by (simp_all add: new_promise_def)

lemma registry_step_refl: "registry_step w w"
  by (simp add: registry_step_def)

lemma registry_step_trans:
  "registry_step w w1 \<Longrightarrow> registry_step w1 w2 \<Longrightarrow> registry_step w w2"
  by (simp add: registry_step_def)

lemma registry_step_fields:
  assumes "registry_step w w'"
  shows "boards w' = boards w" "nboards w' = nboards w" "firmatas w' = firmatas w"
    "nfirmatas w' = nfirmatas w" "promises w' = promises w" "requests w' = requests w"
    "timers w' = timers w" "now w' = now w" "serial w' = serial w"
    "connector_listeners w' = connector_listeners w" "board_emitted w' = board_emitted w"
  using assms by (simp_all add: registry_step_def)

lemma removeBoard_registry: "registry_step w (removeBoard removal w)"
proof (cases "removal \<in> set (connector_boards w)")
  case True
  then show ?thesis
    using removeBoard_shape [of removal w] by (auto simp: registry_step_def)
next
  case False
  then show ?thesis by (simp add: removeBoard_absent registry_step_refl)
qed

lemma runtime_emit_registry: "registry_step w (runtime_emit e w)"
  by (simp add: registry_step_def)

lemma addBoard_registry: "registry_step w (addBoard b w)"
  using addBoard_shape [of b w] by (auto simp: registry_step_def)

lemma on_released_registry: "registry_step w (on_released b w)"
  unfolding on_released_def Let_def
  by (rule registry_step_trans [OF removeBoard_registry runtime_emit_registry])

lemma on_released_pow_registry: "registry_step w ((on_released b ^^ n) w)"
proof (induction n)
  case 0
  show ?case by (simp add: registry_step_refl)
next
  case (Suc n)
  show ?case
    using Suc on_released_registry [of "(on_released b ^^ n) w" b]
    by (auto intro: registry_step_trans)
qed

subsection \<open>Release\<close>

lemma emit_RELEASED_fields:
  "boards (emit_RELEASED this w) = (boards w)(this := (boards w this)\<lparr>releasedOnce := 0\<rparr>)"
  "board_emitted (emit_RELEASED this w) = board_emitted w @ [(this, RELEASED)]"
  "firmatas (emit_RELEASED this w) = firmatas w"
  "promises (emit_RELEASED this w) = promises w"
  "timers (emit_RELEASED this w) = timers w"
  "requests (emit_RELEASED this w) = requests w"
  "now (emit_RELEASED this w) = now w"
  "nboards (emit_RELEASED this w) = nboards w"
  "nfirmatas (emit_RELEASED this w) = nfirmatas w"
  unfolding emit_RELEASED_def Let_def
  by (simp_all add: registry_step_fields [OF on_released_pow_registry])

lemma try_close_fields:
  "boards (try_close f w) = boards w"
  "board_emitted (try_close f w) = board_emitted w"
  "connector_emitted (try_close f w) = connector_emitted w"
  "runtime_emitted (try_close f w) = runtime_emitted w"
  "connector_boards (try_close f w) = connector_boards w"
  "blocks_board (try_close f w) = blocks_board w"
  "promises (try_close f w) = promises w"
  "timers (try_close f w) = timers w"
  "requests (try_close f w) = requests w"
  "now (try_close f w) = now w"
  "nboards (try_close f w) = nboards w"
  "nfirmatas (try_close f w) = nfirmatas w"
  "pins (firmatas (try_close f w) g) = pins (firmatas w g)"
  "analogPins (firmatas (try_close f w) g) = analogPins (firmatas w g)"
  by (simp_all add: try_close_def Let_def)

lemma releaseBoard_fields:
  "boards (releaseBoard this w) =
     (boards w)(this := (boards w this)\<lparr>state := Disconnect, firmata := None,
                                         extensionId := None, releasedOnce := 0\<rparr>)"
  "board_emitted (releaseBoard this w) = board_emitted w @ [(this, RELEASED)]"
  "promises (releaseBoard this w) = promises w"
  "timers (releaseBoard this w) = timers w"
  "requests (releaseBoard this w) = requests w"
  "now (releaseBoard this w) = now w"
  "nboards (releaseBoard this w) = nboards w"
  "nfirmatas (releaseBoard this w) = nfirmatas w"
  "pins (firmatas (releaseBoard this w) g) = pins (firmatas w g)"
  by (auto simp: releaseBoard_def Let_def emit_RELEASED_fields try_close_fields
      split: option.splits)

text \<open>
  A release of a board that has no protocol client and no RELEASED listener left changes
  the board and its emission log only.
\<close>

lemma releaseBoard_idle:
  assumes "firmata (boards w this) = None" and "releasedOnce (boards w this) = 0"
  shows "firmatas (releaseBoard this w) = firmatas w \<and>
         connector_boards (releaseBoard this w) = connector_boards w \<and>
         connector_emitted (releaseBoard this w) = connector_emitted w \<and>
         runtime_emitted (releaseBoard this w) = runtime_emitted w"
  using assms by (simp add: releaseBoard_def Let_def emit_RELEASED_def)

lemma releaseBoard_pow_count:
  "released_count this ((releaseBoard this ^^ N) w) = released_count this w + N"
  by (induction N) (simp_all add: released_count_def releaseBoard_fields)

lemma releaseBoard_pow_later:
  "firmatas ((releaseBoard this ^^ Suc N) w) = firmatas (releaseBoard this w) \<and>
   connector_boards ((releaseBoard this ^^ Suc N) w) = connector_boards (releaseBoard this w) \<and>
   connector_emitted ((releaseBoard this ^^ Suc N) w) = connector_emitted (releaseBoard this w) \<and>
   runtime_emitted ((releaseBoard this ^^ Suc N) w) = runtime_emitted (releaseBoard this w) \<and>
   firmata (boards ((releaseBoard this ^^ Suc N) w) this) = None \<and>
   releasedOnce (boards ((releaseBoard this ^^ Suc N) w) this) = 0"
proof (induction N)
  case 0
  show ?case by (simp add: releaseBoard_fields)
next
  case (Suc N)
  have "firmata (boards ((releaseBoard this ^^ Suc N) w) this) = None"
    and "releasedOnce (boards ((releaseBoard this ^^ Suc N) w) this) = 0"
    using Suc by simp_all
  from releaseBoard_idle [OF this] Suc show ?case
    by (simp add: releaseBoard_fields)
qed

lemma session_ready_released: "released_count 0 session_ready = 0"
  by (simp add: released_count_def session_ready_def world_defs uno_def akadako_def)

text \<open>
  C2, as the specification states it, fails: two releases of the ready board of the
  session emit RELEASED twice, not once.
\<close>

theorem releaseBoard_twice_counterexample:
  "released_count 0 session_ready = 0 \<and>
   released_count 0 ((releaseBoard 0 ^^ 2) session_ready) = 2"
  using releaseBoard_pow_count [of 0 2 session_ready] session_ready_released by simp

text \<open>
  C2, amended. \<open>releaseBoard\<close> has no guard on the previous state: N calls emit RELEASED
  exactly N times, once per call. After every call the board is in state Disconnect, has
  no protocol client and no owner; the calls after the first find no protocol client to
  close and no RELEASED listener to run, so they change neither the protocol clients nor
  the registry, nor do they notify the host.
\<close>

theorem releaseBoard_emits_every_call:
  "released_count this ((releaseBoard this ^^ N) w) = released_count this w + N \<and>
   (0 < N \<longrightarrow>
      state (boards ((releaseBoard this ^^ N) w) this) = Disconnect \<and>
      firmata (boards ((releaseBoard this ^^ N) w) this) = None \<and>
      extensionId (boards ((releaseBoard this ^^ N) w) this) = None \<and>
      firmatas ((releaseBoard this ^^ N) w) = firmatas (releaseBoard this w) \<and>
      connector_boards ((releaseBoard this ^^ N) w) = connector_boards (releaseBoard this w) \<and>
      connector_emitted ((releaseBoard this ^^ N) w) = connector_emitted (releaseBoard this w) \<and>
      runtime_emitted ((releaseBoard this ^^ N) w) = runtime_emitted (releaseBoard this w))"
proof (cases N)
  case 0
  then show ?thesis by simp
next
  case (Suc M)
  have "state (boards ((releaseBoard this ^^ Suc M) w) this) = Disconnect"
    and "extensionId (boards ((releaseBoard this ^^ Suc M) w) this) = None"
    by (simp_all add: releaseBoard_fields)
  then show ?thesis
    using Suc releaseBoard_pow_count [of this N w] releaseBoard_pow_later [where N = M and this = this and w = w]
    by simp
qed

theorem releaseBoard_emits_every_call_witness:
  "released_count 0 ((releaseBoard 0 ^^ 3) session_ready) = 3 \<and>
   state (boards ((releaseBoard 0 ^^ 3) session_ready) 0) = Disconnect \<and>
   firmata (boards ((releaseBoard 0 ^^ 3) session_ready) 0) = None \<and>
   connector_emitted ((releaseBoard 0 ^^ 3) session_ready) =
     connector_emitted (releaseBoard 0 session_ready)"
  using releaseBoard_emits_every_call [of 0 3 session_ready] session_ready_released
  by simp

subsection \<open>The servo and the analog reporter\<close>

lemma servo_value_range: "0 \<le> servo_value x \<and> servo_value x \<le> 180"
  by (cases x) (simp_all add: servo_value_def)

lemma servoTurn_sent:
  "\<exists>cmds. sent (firmatas (snd (servoTurn c a w)) g) = sent (firmatas w g) @ cmds \<and>
      (\<forall>i v. ServoWrite i v \<in> set cmds \<longrightarrow> v = servo_value (toNumber c (ANGLE a)))"
  by (auto simp: servoTurn_def resolved_def pinMode_def servoWrite_def paced_def
      Let_def new_promise_def split: option.splits prod.splits)

lemma servoTurn_commands:
  assumes "blocks_isConnected w" and "PIN a \<noteq> Str []"
    and "firmata (boards w (the (blocks_board w))) = Some f"
  shows "sent (firmatas (snd (servoTurn c a w)) f) =
           sent (firmatas w f) @
             [PinMode (parseInt c (PIN a)) MODES_SERVO,
              ServoWrite (parseInt c (PIN a)) (servo_value (toNumber c (ANGLE a)))]"
  using assms
  by (simp add: servoTurn_def pinMode_def servoWrite_def paced_def Let_def new_promise_def)

text \<open>
  C10. For a finite angle \<open>a\<close> the servo value is \<open>min(180, max(0, 90 - a))\<close>, and for every
  number, the infinities included, it lies between 0 and 180. On a ready board with an
  assigned pin, \<open>servoTurn\<close> sends the pin mode SERVO and then the servo write with that
  value; in every case, each servo write that \<open>servoTurn\<close> adds to the calls of any protocol
  client carries a value between 0 and 180.
\<close>

theorem servoTurn_value_clamped:
  "servo_value (Finite x) = min 180 (max 0 (90 - x)) \<and>
   0 \<le> servo_value angle \<and> servo_value angle \<le> 180 \<and>
   (blocks_isConnected w \<longrightarrow> PIN a \<noteq> Str [] \<longrightarrow>
    firmata (boards w (the (blocks_board w))) = Some f \<longrightarrow>
      sent (firmatas (snd (servoTurn c a w)) f) =
        sent (firmatas w f) @
          [PinMode (parseInt c (PIN a)) MODES_SERVO,
           ServoWrite (parseInt c (PIN a)) (servo_value (toNumber c (ANGLE a)))]) \<and>
   (\<exists>cmds. sent (firmatas (snd (servoTurn c a w)) g) = sent (firmatas w g) @ cmds \<and>
      (\<forall>i v. ServoWrite i v \<in> set cmds \<longrightarrow> 0 \<le> v \<and> v \<le> 180))"
proof -
  obtain cmds where cmds:
    "sent (firmatas (snd (servoTurn c a w)) g) = sent (firmatas w g) @ cmds"
    "\<forall>i v. ServoWrite i v \<in> set cmds \<longrightarrow> v = servo_value (toNumber c (ANGLE a))"
    using servoTurn_sent [of c a w g] by blast
  have bounded: "\<forall>i v. ServoWrite i v \<in> set cmds \<longrightarrow> 0 \<le> v \<and> v \<le> 180"
    using cmds(2) servo_value_range [of "toNumber c (ANGLE a)"] by blast
  have finite_case: "servo_value (Finite x) = min 180 (max 0 (90 - x))"
    by (simp add: servo_value_def)
  show ?thesis
    using finite_case servo_value_range [of angle] servoTurn_commands [of w a f c]
      cmds(1) bounded
    by blast
qed

text \<open>
  On the ready board of the session, an angle of 200 degrees (out of range) commands the
  servo on pin 1 with the value 0, and an angle of -30 degrees with the value 120.
\<close>

theorem servoTurn_value_clamped_witness:
  "sent (firmatas (snd (servoTurn plain_cast (servo_args 200) session_ready)) 0) =
     [I2cConfig, PinMode (Some 1) MODES_SERVO, ServoWrite (Some 1) 0] \<and>
   sent (firmatas (snd (servoTurn plain_cast (servo_args (- 30)) session_ready)) 0) =
     [I2cConfig, PinMode (Some 1) MODES_SERVO, ServoWrite (Some 1) 120]"
proof -
  have pin: "PIN (servo_args x) \<noteq> Str []" for x
    by (simp add: servo_args_def)
  have client: "firmata (boards session_ready (the (blocks_board session_ready))) = Some 0"
    by (simp add: session_ready_facts)
  have "servo_value (Finite 200) = 0" and "servo_value (Finite (- 30)) = 120"
    using servoTurn_value_clamped [of 200 "Finite 0" session_ready no_pin 0 plain_cast 0]
      servoTurn_value_clamped [of "- 30" "Finite 0" session_ready no_pin 0 plain_cast 0]
    by simp_all
  then show ?thesis
    using servoTurn_value_clamped
        [of 0 "Finite 0" session_ready "servo_args 200" 0 plain_cast 0]
      servoTurn_value_clamped
        [of 0 "Finite 0" session_ready "servo_args (- 30)" 0 plain_cast 0]
      session_ready_connected pin client
    by (simp add: session_ready_facts servo_args_def plain_cast_def)
qed

lemmas read_defs = updateAnalogInput_def updateDigitalInput_def pin_at_def cached_def
  read_cleanup_def tick_def uno_pin_def

lemma session_ready_client:
  "pins (firmatas session_ready 0) = [uno_pin, uno_pin, uno_pin, uno_pin]"
  "analogPins (firmatas session_ready 0) = [2, 3]"
  "listeners (firmatas session_ready 0) =
     [(SClose, HClose 0), (SDisconnect, HDisconnect 0), (SError, HError 0)]"
  "timers session_ready = []"
  "now session_ready = 1000"
  "boards session_ready 0 =
     new_board\<lparr>extensionId := Some EXTENSION_ID, state := Ready, firmata := Some 0,
               portInfo := Some akadako, releasedOnce := 1\<rparr>"
  by (simp_all add: session_ready_def world_defs uno_def akadako_def)

lemmas session_facts = session_ready_facts session_ready_client

lemma session_analog_read:
  "updateAnalogInput 0 0 session_ready = Inr session_analog"
  "fst session_analog = 1"
  by (simp_all add: session_analog_def read_defs session_facts Let_def new_promise_def)

lemma session_analog_sample:
  "status (promises (step (Emit 0 (SAnalogRead 0) 512) (snd session_analog)) ! 1) =
     Resolved (VNum 512)"
  by (simp add: session_analog_def read_defs session_facts Let_def firmata_emit_def
      settle_promise_def new_board_def nth_append new_promise_def)

subsection \<open>Settling promises and firing timers\<close>

lemma quiet_step_refl: "quiet_step w w"
  by (simp add: quiet_step_def)

lemma quiet_step_trans: "quiet_step w w1 \<Longrightarrow> quiet_step w1 w2 \<Longrightarrow> quiet_step w w2"
  by (simp add: quiet_step_def)

lemma quiet_reaction: "quiet s \<Longrightarrow> run_reaction s r w = w"
  by (cases s rule: quiet.cases) (simp_all add: run_reaction_def)

lemma quiet_reactions: "quiet s \<Longrightarrow> fold (run_reaction s) rs w = w"
  by (induction rs) (simp_all add: quiet_reaction)

lemma status_update_cleanup:
  "cleanup (xs[q := (xs ! q)\<lparr>status := s\<rparr>] ! i) = cleanup (xs ! i)"
  by (cases "q < length xs") (simp_all add: nth_list_update list_update_beyond)

lemma set_status_quiet: "quiet_step w (set_status q s w)"
  by (simp add: quiet_step_def status_update_cleanup)

lemma set_status_other: "p \<noteq> q \<Longrightarrow> promises (set_status q s w) ! p = promises w ! p"
  by simp

lemma upd_pin_calm_quiet:
  assumes "n < length (pins (firmatas w f))"
    and "\<And>x. calm x \<Longrightarrow> calm (g x)"
  shows "quiet_step w (upd_pin f n g w)"
  using assms by (auto simp: quiet_step_def nth_list_update)

lemma read_cleanup_quiet: "quiet_step w (read_cleanup q this n s w)"
proof (cases "pin_at this (Some (int n)) w")
  case None
  then show ?thesis by (simp add: read_cleanup_def set_status_quiet)
next
  case (Some r)
  obtain f k x where r: "r = (f, k, x)" by (cases r) auto
  have f: "firmata (boards w this) = Some f" and n: "n < length (pins (firmatas w f))"
    using Some r by (auto simp: pin_at_def split: option.splits if_splits)
  have a: "quiet_step w (upd_pin f n (\<lambda>x. x\<lparr>pin_value := 0\<rparr>) w)"
    by (rule upd_pin_calm_quiet [OF n]) (simp add: calm_def)
  have b: "quiet_step w' (upd_pin f n (\<lambda>x. x\<lparr>updating := False\<rparr>) w')"
    if "n < length (pins (firmatas w' f))" for w'
    by (rule upd_pin_calm_quiet [OF that]) (simp add: calm_def)
  have n': "n < length (pins (firmatas (upd_pin f n (\<lambda>x. x\<lparr>pin_value := 0\<rparr>) w) f))"
    using n by simp
  show ?thesis
    using Some r a b [OF n] b [OF n']
    by (auto simp: read_cleanup_def split: settle.splits
        intro: quiet_step_trans set_status_quiet)
qed

lemma read_cleanup_frame:
  "timers (read_cleanup q this n s w) = timers w"
  "now (read_cleanup q this n s w) = now w"
  by (auto simp: read_cleanup_def split: option.splits settle.splits)

lemma read_cleanup_other:
  "p \<noteq> q \<Longrightarrow> promises (read_cleanup q this n s w) ! p = promises w ! p"
  by (auto simp: read_cleanup_def split: option.splits settle.splits)

lemma settle_promise_quiet:
  assumes "quiet s"
  shows "quiet_step w (settle_promise q s w)"
    and "timers (settle_promise q s w) = timers w"
    and "now (settle_promise q s w) = now w"
  using assms
  by (auto simp: settle_promise_def quiet_reactions read_cleanup_quiet read_cleanup_frame
      set_status_quiet quiet_step_refl split: option.splits)

lemma settle_promise_other:
  assumes "quiet s" and "p \<noteq> q"
  shows "promises (settle_promise q s w) ! p = promises w ! p"
  using assms
  by (auto simp: settle_promise_def quiet_reactions read_cleanup_other split: option.splits)

lemma settle_promise_done:
  "status (promises w ! q) \<noteq> Pending \<Longrightarrow> settle_promise q s w = w"
  by (simp add: settle_promise_def)

lemma settle_promise_timeout:
  assumes "inflight p this n f w"
  shows "timed_out p this n f d (settle_promise p (Rejected (TimeoutError d)) w)"
  using assms
  by (simp add: inflight_def timed_out_def settle_promise_def read_cleanup_def pin_at_def
      calm_def)

lemma fire_quiet:
  "quiet_step w (fire a w)" "timers (fire a w) = timers w" "now (fire a w) = now w"
  by (cases a; simp add: settle_promise_quiet)+

lemma fire_other: "timer_pid a \<noteq> p \<Longrightarrow> promises (fire a w) ! p = promises w ! p"
  by (cases a) (simp_all add: settle_promise_other)

lemma inflight_quiet:
  assumes "quiet_step w w'" and "promises w' ! p = promises w ! p"
    and "inflight p this n f w"
  shows "inflight p this n f w'"
  using assms by (simp add: inflight_def quiet_step_def)

lemma timed_out_fire:
  assumes "timed_out p this n f d w"
  shows "timed_out p this n f d (fire a w)"
proof (cases "timer_pid a = p")
  case True
  have "status (promises w ! timer_pid a) \<noteq> Pending"
    using assms True by (simp add: timed_out_def)
  then have "fire a w = w"
    by (cases a) (simp_all add: settle_promise_done)
  then show ?thesis using assms by simp
next
  case False
  have "quiet_step w (fire a w)" by (rule fire_quiet)
  then show ?thesis
    using assms fire_other [OF False, of w]
    by (simp add: timed_out_def quiet_step_def)
qed

lemma fire_all_quiet:
  "quiet_step w (fire_all xs w) \<and> timers (fire_all xs w) = timers w \<and>
   now (fire_all xs w) = now w"
proof (induction xs arbitrary: w)
  case Nil
  show ?case by (simp add: fire_all_def quiet_step_refl)
next
  case (Cons x xs)
  have step: "fire_all (x # xs) w = fire_all xs (fire (snd x) w)"
    by (simp add: fire_all_def)
  show ?case
    unfolding step
    using Cons [of "fire (snd x) w"] fire_quiet [where w = w and a = "snd x"]
    by (auto intro: quiet_step_trans)
qed

lemma fire_all_other:
  "list_all (\<lambda>x. timer_pid (snd x) \<noteq> p) xs \<Longrightarrow>
   promises (fire_all xs w) ! p = promises w ! p"
proof (induction xs arbitrary: w)
  case Nil
  show ?case by (simp add: fire_all_def)
next
  case (Cons x xs)
  have step: "fire_all (x # xs) w = fire_all xs (fire (snd x) w)"
    by (simp add: fire_all_def)
  show ?case
    unfolding step using Cons.prems Cons.IH [of "fire (snd x) w"] fire_other [of "snd x" p w]
    by simp
qed

lemma timed_out_fire_all:
  "timed_out p this n f d w \<Longrightarrow> timed_out p this n f d (fire_all xs w)"
proof (induction xs arbitrary: w)
  case Nil
  then show ?case by (simp add: fire_all_def)
next
  case (Cons x xs)
  have step: "fire_all (x # xs) w = fire_all xs (fire (snd x) w)"
    by (simp add: fire_all_def)
  show ?case
    unfolding step using Cons.IH [OF timed_out_fire [OF Cons.prems]] .
qed

lemma inflight_fire_all:
  assumes "inflight p this n f w"
    and "list_all (\<lambda>x. timer_pid (snd x) = p \<longrightarrow> snd x = TimeoutReject p d) xs"
  shows "if (\<exists>x \<in> set xs. snd x = TimeoutReject p d)
         then timed_out p this n f d (fire_all xs w)
         else inflight p this n f (fire_all xs w)"
  using assms
proof (induction xs arbitrary: w)
  case Nil
  then show ?case by (simp add: fire_all_def)
next
  case (Cons x xs)
  have step: "fire_all (x # xs) w = fire_all xs (fire (snd x) w)"
    by (simp add: fire_all_def)
  show ?case
  proof (cases "snd x = TimeoutReject p d")
    case True
    have "timed_out p this n f d (fire (snd x) w)"
      using settle_promise_timeout [OF Cons.prems(1), of d] True by simp
    then show ?thesis
      unfolding step using True timed_out_fire_all by simp
  next
    case False
    have other: "timer_pid (snd x) \<noteq> p"
      using Cons.prems(2) False by auto
    have "inflight p this n f (fire (snd x) w)"
      using inflight_quiet [OF fire_quiet(1) fire_other [OF other] Cons.prems(1)] .
    from Cons.IH [OF this] Cons.prems(2) False show ?thesis
      unfolding step by simp
  qed
qed


subsection \<open>Time passing\<close>

lemma tick_fire_all:
  "tick w =
     fire_all (filter (\<lambda>x. fst x \<le> now w + 1) (timers w))
       (w\<lparr>now := now w + 1, timers := filter (\<lambda>x. \<not> fst x \<le> now w + 1) (timers w)\<rparr>)"
  by (simp add: tick_def fire_all_def Let_def)

lemma tick_quiet:
  "quiet_step w (tick w)"
  "now (tick w) = now w + 1"
  "timers (tick w) = filter (\<lambda>x. \<not> fst x \<le> now w + 1) (timers w)"
proof -
  let ?w1 = "w\<lparr>now := now w + 1, timers := filter (\<lambda>x. \<not> fst x \<le> now w + 1) (timers w)\<rparr>"
  let ?due = "filter (\<lambda>x. fst x \<le> now w + 1) (timers w)"
  have base: "quiet_step w ?w1" by (simp add: quiet_step_def)
  have rest: "quiet_step ?w1 (fire_all ?due ?w1) \<and> timers (fire_all ?due ?w1) = timers ?w1 \<and>
              now (fire_all ?due ?w1) = now ?w1"
    by (rule fire_all_quiet)
  show "quiet_step w (tick w)"
    unfolding tick_fire_all using base rest by (blast intro: quiet_step_trans)
  show "now (tick w) = now w + 1"
    unfolding tick_fire_all using rest by simp
  show "timers (tick w) = filter (\<lambda>x. \<not> fst x \<le> now w + 1) (timers w)"
    unfolding tick_fire_all using rest by simp
qed

lemma tick_other:
  assumes "list_all (\<lambda>x. timer_pid (snd x) \<noteq> p) (timers w)"
  shows "promises (tick w) ! p = promises w ! p"
proof -
  have "list_all (\<lambda>x. timer_pid (snd x) \<noteq> p) (filter (\<lambda>x. fst x \<le> now w + 1) (timers w))"
    using assms by (simp add: list_all_iff)
  from fire_all_other [OF this] show ?thesis
    unfolding tick_fire_all by simp
qed

lemma elapse_quiet:
  "quiet_step w (elapse k w) \<and> now (elapse k w) = now w + int k \<and>
   set (timers (elapse k w)) \<subseteq> set (timers w)"
proof (induction k arbitrary: w)
  case 0
  show ?case by (simp add: quiet_step_refl)
next
  case (Suc k)
  show ?case
    using Suc [of "tick w"] tick_quiet [of w]
    by (auto intro: quiet_step_trans)
qed

lemma elapse_other:
  "list_all (\<lambda>x. timer_pid (snd x) \<noteq> p) (timers w) \<Longrightarrow>
   promises (elapse k w) ! p = promises w ! p"
proof (induction k arbitrary: w)
  case 0
  show ?case by simp
next
  case (Suc k)
  have "list_all (\<lambda>x. timer_pid (snd x) \<noteq> p) (timers (tick w))"
    using Suc.prems by (simp add: tick_quiet list_all_iff)
  from Suc.IH [OF this] tick_other [OF Suc.prems] show ?case by simp
qed

text \<open>
  A read in flight whose only timer is due at \<open>T\<close>: one millisecond later it has timed out
  if \<open>T\<close> has come, and is still in flight, with its timer, if not.
\<close>

lemma tick_inflight:
  assumes fl: "inflight p this n f w"
    and mine: "(T, TimeoutReject p d) \<in> set (timers w)"
    and only: "list_all (\<lambda>x. timer_pid (snd x) = p \<longrightarrow> x = (T, TimeoutReject p d)) (timers w)"
  shows "if T \<le> now w + 1 then timed_out p this n f d (tick w)
         else inflight p this n f (tick w) \<and> (T, TimeoutReject p d) \<in> set (timers (tick w)) \<and>
              list_all (\<lambda>x. timer_pid (snd x) = p \<longrightarrow> x = (T, TimeoutReject p d))
                (timers (tick w))"
proof -
  let ?w1 = "w\<lparr>now := now w + 1, timers := filter (\<lambda>x. \<not> fst x \<le> now w + 1) (timers w)\<rparr>"
  let ?due = "filter (\<lambda>x. fst x \<le> now w + 1) (timers w)"
  have fl1: "inflight p this n f ?w1"
    using fl by (simp add: inflight_def)
  have only_due: "list_all (\<lambda>x. timer_pid (snd x) = p \<longrightarrow> snd x = TimeoutReject p d) ?due"
    using only by (auto simp: list_all_iff)
  note main = inflight_fire_all [OF fl1 only_due]
  show ?thesis
  proof (cases "T \<le> now w + 1")
    case True
    then have "\<exists>x \<in> set ?due. snd x = TimeoutReject p d"
      using mine by force
    then show ?thesis
      using main True unfolding tick_fire_all by simp
  next
    case False
    have "\<not> (\<exists>x \<in> set ?due. snd x = TimeoutReject p d)"
    proof
      assume "\<exists>x \<in> set ?due. snd x = TimeoutReject p d"
      then obtain x where x: "x \<in> set (timers w)" "fst x \<le> now w + 1"
        "snd x = TimeoutReject p d"
        by auto
      then have "x = (T, TimeoutReject p d)"
        using only by (auto simp: list_all_iff)
      then show False using x(2) False by simp
    qed
    then have "inflight p this n f (tick w)"
      using main unfolding tick_fire_all by simp
    moreover have "(T, TimeoutReject p d) \<in> set (timers (tick w))"
      using mine False by (simp add: tick_quiet)
    moreover have "list_all (\<lambda>x. timer_pid (snd x) = p \<longrightarrow> x = (T, TimeoutReject p d))
                     (timers (tick w))"
      using only by (simp add: tick_quiet list_all_iff)
    ultimately show ?thesis using False by simp
  qed
qed

lemma timed_out_tick: "timed_out p this n f d w \<Longrightarrow> timed_out p this n f d (tick w)"
proof -
  assume "timed_out p this n f d w"
  then have "timed_out p this n f d
               (w\<lparr>now := now w + 1, timers := filter (\<lambda>x. \<not> fst x \<le> now w + 1) (timers w)\<rparr>)"
    by (simp add: timed_out_def)
  from timed_out_fire_all [OF this] show ?thesis
    unfolding tick_fire_all .
qed

lemma timed_out_elapse: "timed_out p this n f d w \<Longrightarrow> timed_out p this n f d (elapse k w)"
  by (induction k arbitrary: w) (simp_all add: timed_out_tick)

lemma elapse_inflight:
  assumes "inflight p this n f w"
    and "(T, TimeoutReject p d) \<in> set (timers w)"
    and "list_all (\<lambda>x. timer_pid (snd x) = p \<longrightarrow> x = (T, TimeoutReject p d)) (timers w)"
  shows "if T \<le> now w + int k \<and> 0 < k then timed_out p this n f d (elapse k w)
         else inflight p this n f (elapse k w)"
  using assms
proof (induction k arbitrary: w)
  case 0
  then show ?case by simp
next
  case (Suc k)
  note step = tick_inflight [OF Suc.prems]
  show ?case
  proof (cases "T \<le> now w + 1")
    case True
    then have "timed_out p this n f d (tick w)" using step by simp
    from timed_out_elapse [OF this] True show ?thesis by simp
  next
    case False
    then have next_world: "inflight p this n f (tick w)"
      "(T, TimeoutReject p d) \<in> set (timers (tick w))"
      "list_all (\<lambda>x. timer_pid (snd x) = p \<longrightarrow> x = (T, TimeoutReject p d)) (timers (tick w))"
      using step by simp_all
    have clock: "now (tick w) = now w + 1" by (simp add: tick_quiet)
    have same: "(T \<le> now (tick w) + int k \<and> 0 < k) = (T \<le> now w + int (Suc k) \<and> 0 < Suc k)"
      using False clock by (cases k) auto
    show ?thesis
      using Suc.IH [OF next_world] unfolding same elapse.simps(2) .
  qed
qed

subsection \<open>Pin reads\<close>

lemma pin_at_SomeD:
  assumes "pin_at this i w = Some (f, n, x)"
  shows "firmata (boards w this) = Some f" "i = Some (int n)"
    "n < length (pins (firmatas w f))" "x = pins (firmatas w f) ! n"
  using assms by (auto simp: pin_at_def split: option.splits if_splits)

lemma fresh_timers_other:
  assumes "timers_fresh w"
  shows "list_all (\<lambda>x. timer_pid (snd x) = length (promises w) \<longrightarrow> x = y) (timers w @ [y])"
  using assms by (auto simp: timers_fresh_def list_all_iff)

text \<open>What a digital read that returns a pending promise has set up.\<close>

lemma updateDigitalInput_pending:
  assumes pin: "pin_at this i w = Some (f, n, x)"
    and call: "updateDigitalInput this i w = Inr (p, w1)"
    and pending: "status (promises w1 ! p) = Pending"
    and fresh: "timers_fresh w"
  shows "inflight p this n f w1"
    and "(now w + int (updateDigitalInputWaitingTime (boards w this)),
          TimeoutReject p (updateDigitalInputWaitingTime (boards w this))) \<in> set (timers w1)"
    and "list_all (\<lambda>y. timer_pid (snd y) = p \<longrightarrow>
            y = (now w + int (updateDigitalInputWaitingTime (boards w this)),
                 TimeoutReject p (updateDigitalInputWaitingTime (boards w this)))) (timers w1)"
    and "boards w1 = boards w" and "now w1 = now w" and "board_emitted w1 = board_emitted w"
    and "updating (pins (firmatas w1 f) ! n)"
    and "listeners (firmatas w1 f) =
           listeners (firmatas w f) @ [(SDigitalRead n, HDigitalRead this n p)]"
    and "p = length (promises w)"
    and "length (promises w1) = Suc p"
    and "firmata (boards w1 this) = Some f"
    and "length (pins (firmatas w1 f)) = length (pins (firmatas w f))"
    and "pin_value (pins (firmatas w1 f) ! n) = pin_value x"
    and "mode (pins (firmatas w1 f) ! n) = mode x"
    and "sent (firmatas w1 f) =
           sent (firmatas w f) @
             [PinMode i (if inputBias x \<noteq> Some MODES_PULLUP then MODES_INPUT else MODES_PULLUP),
              ReportDigitalPin n 1]"
    and "\<not> (mode x \<noteq> None \<and> mode x \<noteq> Some MODES_INPUT \<and> mode x \<noteq> Some MODES_PULLUP)"
proof -
  note facts = pin_at_SomeD [OF pin]
  let ?skip = "(mode x \<noteq> None \<and> mode x \<noteq> Some MODES_INPUT \<and> mode x \<noteq> Some MODES_PULLUP) \<or>
               cached (now w) (digitalReadInterval (boards w this)) x"
  have not_skipped: "\<not> ?skip"
  proof
    assume ?skip
    then have "updateDigitalInput this i w =
                 Inr (new_promise (Resolved (VNum (of_int (pin_value x)))) None w)"
      using pin by (auto simp: updateDigitalInput_def)
    then have "status (promises w1 ! p) = Resolved (VNum (of_int (pin_value x)))"
      using call by (auto simp: new_promise_def)
    then show False using pending by simp
  qed
  have p: "p = length (promises w)"
    using call pin not_skipped
    by (auto simp: updateDigitalInput_def Let_def new_promise_def)
  have w1: "w1 =
      set_timeout (updateDigitalInputWaitingTime (boards w this))
        (TimeoutReject p (updateDigitalInputWaitingTime (boards w this)))
        (upd_firmata f
           (\<lambda>fo. fo\<lparr>listeners := listeners fo @ [(SDigitalRead n, HDigitalRead this n p)]\<rparr>)
           (call f (ReportDigitalPin n 1)
              (call f (PinMode i (if inputBias x \<noteq> Some MODES_PULLUP then MODES_INPUT
                                  else MODES_PULLUP))
                 (upd_pin f n
                    (\<lambda>x'. x'\<lparr>inputBias := Some (if inputBias x \<noteq> Some MODES_PULLUP
                                                  then MODES_INPUT else MODES_PULLUP)\<rparr>)
                    (snd (new_promise Pending (Some (this, n))
                            (upd_pin f n (\<lambda>x. x\<lparr>updating := True\<rparr>) w)))))))"
    using call pin not_skipped
    by (auto simp: updateDigitalInput_def Let_def new_promise_def)
  show "p = length (promises w)" by (rule p)
  show "inflight p this n f w1"
    unfolding w1 using facts p by (simp add: inflight_def nth_append)
  show "boards w1 = boards w" "now w1 = now w" "board_emitted w1 = board_emitted w"
    unfolding w1 by simp_all
  show "updating (pins (firmatas w1 f) ! n)"
    unfolding w1 using facts by simp
  show "listeners (firmatas w1 f) =
          listeners (firmatas w f) @ [(SDigitalRead n, HDigitalRead this n p)]"
    unfolding w1 by simp
  show "length (promises w1) = Suc p"
    unfolding w1 using p by simp
  show "firmata (boards w1 this) = Some f"
    unfolding w1 using facts by simp
  show "length (pins (firmatas w1 f)) = length (pins (firmatas w f))"
    unfolding w1 by simp
  show "pin_value (pins (firmatas w1 f) ! n) = pin_value x"
    and "mode (pins (firmatas w1 f) ! n) = mode x"
    unfolding w1 using facts by simp_all
  show "sent (firmatas w1 f) =
          sent (firmatas w f) @
            [PinMode i (if inputBias x \<noteq> Some MODES_PULLUP then MODES_INPUT else MODES_PULLUP),
             ReportDigitalPin n 1]"
    unfolding w1 by simp
  show "\<not> (mode x \<noteq> None \<and> mode x \<noteq> Some MODES_INPUT \<and> mode x \<noteq> Some MODES_PULLUP)"
    using not_skipped by blast
  show "(now w + int (updateDigitalInputWaitingTime (boards w this)),
         TimeoutReject p (updateDigitalInputWaitingTime (boards w this))) \<in> set (timers w1)"
    unfolding w1 by simp
  show "list_all (\<lambda>y. timer_pid (snd y) = p \<longrightarrow>
            y = (now w + int (updateDigitalInputWaitingTime (boards w this)),
                 TimeoutReject p (updateDigitalInputWaitingTime (boards w this)))) (timers w1)"
    unfolding w1 p using fresh_timers_other [OF fresh] by simp
qed

text \<open>The same for an analog read; \<open>n\<close> is the pin behind the analog pin \<open>k\<close>.\<close>

lemma updateAnalogInput_pending:
  assumes client: "firmata (boards w this) = Some f"
    and pin: "pin_at this (Some (int (analogPins (firmatas w f) ! k))) w = Some (f, n, x)"
    and call: "updateAnalogInput this k w = Inr (p, w1)"
    and pending: "status (promises w1 ! p) = Pending"
    and fresh: "timers_fresh w"
  shows "inflight p this n f w1"
    and "(now w + int (updateAnalogInputWaitingTime (boards w this)),
          TimeoutReject p (updateAnalogInputWaitingTime (boards w this))) \<in> set (timers w1)"
    and "list_all (\<lambda>y. timer_pid (snd y) = p \<longrightarrow>
            y = (now w + int (updateAnalogInputWaitingTime (boards w this)),
                 TimeoutReject p (updateAnalogInputWaitingTime (boards w this)))) (timers w1)"
    and "boards w1 = boards w" and "now w1 = now w" and "board_emitted w1 = board_emitted w"
    and "updating (pins (firmatas w1 f) ! n)"
    and "listeners (firmatas w1 f) =
           listeners (firmatas w f) @ [(SAnalogRead k, HAnalogRead this k n p)]"
    and "p = length (promises w)"
    and "pin_value (pins (firmatas w1 f) ! n) = pin_value x"
proof -
  note facts = pin_at_SomeD [OF pin]
  have in_range: "\<not> length (analogPins (firmatas w f)) \<le> k"
    using call client by (auto simp: updateAnalogInput_def split: if_splits)
  have not_cached: "\<not> cached (now w) (analogReadInterval (boards w this)) x"
  proof
    assume "cached (now w) (analogReadInterval (boards w this)) x"
    then have "updateAnalogInput this k w =
                 Inr (new_promise (Resolved (VNum (of_int (pin_value x)))) None w)"
      using pin client in_range by (auto simp: updateAnalogInput_def)
    then have "status (promises w1 ! p) = Resolved (VNum (of_int (pin_value x)))"
      using call by (auto simp: new_promise_def)
    then show False using pending by simp
  qed
  have p: "p = length (promises w)"
    using call pin client in_range not_cached
    by (auto simp: updateAnalogInput_def Let_def new_promise_def)
  have w1: "w1 =
      set_timeout (updateAnalogInputWaitingTime (boards w this))
        (TimeoutReject p (updateAnalogInputWaitingTime (boards w this)))
        (upd_firmata f
           (\<lambda>fo. fo\<lparr>listeners := listeners fo @ [(SAnalogRead k, HAnalogRead this k n p)]\<rparr>)
           (call f (ReportAnalogPin k 1)
              (call f (PinMode (Some (int k)) MODES_ANALOG)
                 (snd (new_promise Pending (Some (this, n))
                         (upd_pin f n (\<lambda>x. x\<lparr>updating := True\<rparr>) w))))))"
    using call pin client in_range not_cached
    by (auto simp: updateAnalogInput_def Let_def new_promise_def)
  show "p = length (promises w)" by (rule p)
  show "inflight p this n f w1"
    unfolding w1 using facts p by (simp add: inflight_def nth_append)
  show "boards w1 = boards w" "now w1 = now w" "board_emitted w1 = board_emitted w"
    unfolding w1 by simp_all
  show "updating (pins (firmatas w1 f) ! n)"
    unfolding w1 using facts by simp
  show "listeners (firmatas w1 f) =
          listeners (firmatas w f) @ [(SAnalogRead k, HAnalogRead this k n p)]"
    unfolding w1 by simp
  show "(now w + int (updateAnalogInputWaitingTime (boards w this)),
         TimeoutReject p (updateAnalogInputWaitingTime (boards w this))) \<in> set (timers w1)"
    unfolding w1 by simp
  show "list_all (\<lambda>y. timer_pid (snd y) = p \<longrightarrow>
            y = (now w + int (updateAnalogInputWaitingTime (boards w this)),
                 TimeoutReject p (updateAnalogInputWaitingTime (boards w this)))) (timers w1)"
    unfolding w1 p using fresh_timers_other [OF fresh] by simp
  show "pin_value (pins (firmatas w1 f) ! n) = pin_value x"
    unfolding w1 using facts by simp
qed

text \<open>
  A read in flight, with its one timer set for \<open>d\<close> ms after the request: it is still
  pending before \<open>d\<close> ms have passed, and from then on it has timed out.
\<close>

lemma read_deadline:
  assumes fl: "inflight p this n f w1"
    and mine: "(now w1 + int d, TimeoutReject p d) \<in> set (timers w1)"
    and only: "list_all (\<lambda>y. timer_pid (snd y) = p \<longrightarrow> y = (now w1 + int d, TimeoutReject p d))
                 (timers w1)"
    and same: "boards w1 = boards w" "board_emitted w1 = board_emitted w"
  shows "d \<le> k \<Longrightarrow> 0 < k \<Longrightarrow> deadline_passed p f n d w (elapse k w1)"
    and "k < d \<Longrightarrow> status (promises (elapse k w1) ! p) = Pending"
proof -
  note main = elapse_inflight [OF fl mine only, of k]
  have frame: "boards (elapse k w1) = boards w" "board_emitted (elapse k w1) = board_emitted w"
    using elapse_quiet [of w1 k] same by (simp_all add: quiet_step_def)
  show "deadline_passed p f n d w (elapse k w1)" if "d \<le> k" "0 < k"
    using main that frame by (simp add: deadline_passed_def timed_out_def calm_def)
  show "status (promises (elapse k w1) ! p) = Pending" if "k < d"
    using main that by (simp add: inflight_def)
qed

text \<open>The sample listeners, run while the read they belong to is in flight.\<close>

lemma sample_handler:
  assumes "inflight p this n f w1"
    and "boards w1 = boards w" "board_emitted w1 = board_emitted w" "now w1 = now w"
  shows "\<exists>w2. run_handler g v (HDigitalRead this n p) w1 = Some w2 \<and> sample_stored p f n v w w2"
    and "\<exists>w2. run_handler g v (HAnalogRead this k n p) w1 = Some w2 \<and> sample_stored p f n v w w2"
  using assms
  by (simp_all add: inflight_def sample_stored_def pin_at_def settle_promise_def
      read_cleanup_def)

lemma digital_sample_arrives:
  assumes fl: "inflight p this n f w1"
    and same: "boards w1 = boards w" "board_emitted w1 = board_emitted w" "now w1 = now w"
    and mine: "listeners (firmatas w1 f) = ls @ [(SDigitalRead n, HDigitalRead this n p)]"
    and alone: "filter (\<lambda>l. fst l = SDigitalRead n) ls = []"
  shows "sample_stored p f n v w (step (Emit f (SDigitalRead n) v) w1)"
proof -
  let ?w = "upd_firmata f
              (\<lambda>fo. fo\<lparr>listeners := remove1 (SDigitalRead n, HDigitalRead this n p)
                                       (listeners fo)\<rparr>) w1"
  have "inflight p this n f ?w" using fl by (simp add: inflight_def)
  from sample_handler(1) [OF this, of w g v for g]
  obtain w2 where "run_handler f v (HDigitalRead this n p) ?w = Some w2"
    "sample_stored p f n v w w2"
    using same by auto
  then show ?thesis
    using mine alone by (simp add: firmata_emit_def)
qed

lemma analog_sample_arrives:
  assumes fl: "inflight p this n f w1"
    and same: "boards w1 = boards w" "board_emitted w1 = board_emitted w" "now w1 = now w"
    and mine: "listeners (firmatas w1 f) = ls @ [(SAnalogRead k, HAnalogRead this k n p)]"
    and alone: "filter (\<lambda>l. fst l = SAnalogRead k) ls = []"
  shows "sample_stored p f n v w (step (Emit f (SAnalogRead k) v) w1)"
proof -
  let ?w = "upd_firmata f
              (\<lambda>fo. fo\<lparr>listeners := remove1 (SAnalogRead k, HAnalogRead this k n p)
                                       (listeners fo)\<rparr>) w1"
  have "inflight p this n f ?w" using fl by (simp add: inflight_def)
  from sample_handler(2) [OF this, of w g v k for g]
  obtain w2 where "run_handler f v (HAnalogRead this k n p) ?w = Some w2"
    "sample_stored p f n v w w2"
    using same by auto
  then show ?thesis
    using mine alone by (simp add: firmata_emit_def)
qed

text \<open>
  The limit of the cleanup: it goes through \<open>this.pins\<close> at the time it runs. When the
  board has been released while the read was in flight, the \<open>catch\<close> and \<open>finally\<close>
  callbacks themselves throw, the caller's promise rejects with that TypeError, and no pin
  is written.
\<close>

lemma cleanup_after_release:
  assumes "p < length (promises w)" and "status (promises w ! p) = Pending"
    and "cleanup (promises w ! p) = Some (this, n)" and "firmata (boards w this) = None"
  shows "status (promises (fire (TimeoutReject p d) w) ! p) = Rejected TypeError \<and>
         firmatas (fire (TimeoutReject p d) w) = firmatas w"
  using assms by (simp add: settle_promise_def read_cleanup_def pin_at_def)


lemma session_digital_read:
  "updateDigitalInput 0 (Some 1) session_ready = Inr session_digital"
  "fst session_digital = 1"
  "pin_at 0 (Some 1) session_ready = Some (0, 1, uno_pin)"
  "status (promises (snd session_digital) ! 1) = Pending"
  by (simp_all add: session_digital_def read_defs session_facts Let_def new_promise_def
      nth_append)

lemma session_ready_fresh: "timers_fresh session_ready"
  by (simp add: timers_fresh_def session_facts)

text \<open>
  The deadline of a read on a board that stays connected. A read that returns a pending
  promise has set the pin's flag. If nothing but time passes, the promise is still pending
  while less than the read's waiting time has passed and, once the waiting time has
  passed, it is rejected with the timeout error, the cached value of the pin is 0 and its
  flag is clear, while every board is as it was when the read was requested (not
  released, nothing emitted). If instead the sample arrives (and
  no older listener waits for it), the promise resolves with the sample, the sample and
  its time are stored and the flag is clear. This holds for the digital read and for the
  analog read, whose pin is the one behind the analog pin \<open>k\<close>.
\<close>

lemma read_timeout_clears_flag:
  assumes "timers_fresh w"
  shows
    "(pin_at this i w = Some (f, n, x) \<longrightarrow> updateDigitalInput this i w = Inr (p, w1) \<longrightarrow>
      status (promises w1 ! p) = Pending \<longrightarrow>
        updating (pins (firmatas w1 f) ! n) \<and>
        (j < updateDigitalInputWaitingTime (boards w this) \<longrightarrow>
           status (promises (elapse j w1) ! p) = Pending) \<and>
        (updateDigitalInputWaitingTime (boards w this) \<le> Suc m \<longrightarrow>
           deadline_passed p f n (updateDigitalInputWaitingTime (boards w this)) w
             (elapse (Suc m) w1)) \<and>
        (filter (\<lambda>l. fst l = SDigitalRead n) (listeners (firmatas w f)) = [] \<longrightarrow>
           sample_stored p f n v w (step (Emit f (SDigitalRead n) v) w1))) \<and>
     (firmata (boards w this) = Some f \<longrightarrow>
      pin_at this (Some (int (analogPins (firmatas w f) ! k))) w = Some (f, n, x) \<longrightarrow>
      updateAnalogInput this k w = Inr (p, w1) \<longrightarrow> status (promises w1 ! p) = Pending \<longrightarrow>
        updating (pins (firmatas w1 f) ! n) \<and>
        (j < updateAnalogInputWaitingTime (boards w this) \<longrightarrow>
           status (promises (elapse j w1) ! p) = Pending) \<and>
        (updateAnalogInputWaitingTime (boards w this) \<le> Suc m \<longrightarrow>
           deadline_passed p f n (updateAnalogInputWaitingTime (boards w this)) w
             (elapse (Suc m) w1)) \<and>
        (filter (\<lambda>l. fst l = SAnalogRead k) (listeners (firmatas w f)) = [] \<longrightarrow>
           sample_stored p f n v w (step (Emit f (SAnalogRead k) v) w1)))"
proof (intro conjI impI)
  assume pin: "pin_at this i w = Some (f, n, x)"
    and call: "updateDigitalInput this i w = Inr (p, w1)"
    and pending: "status (promises w1 ! p) = Pending"
  note start = updateDigitalInput_pending [OF pin call pending assms]
  note deadline = read_deadline [OF start(1) start(2) [folded start(5)]
      start(3) [folded start(5)] start(4) start(6)]
  show "updating (pins (firmatas w1 f) ! n)" by (rule start(7))
  show "status (promises (elapse j w1) ! p) = Pending"
    if "j < updateDigitalInputWaitingTime (boards w this)"
    using deadline(2) [OF that] .
  show "deadline_passed p f n (updateDigitalInputWaitingTime (boards w this)) w
          (elapse (Suc m) w1)"
    if "updateDigitalInputWaitingTime (boards w this) \<le> Suc m"
    using deadline(1) [OF that] by simp
  show "sample_stored p f n v w (step (Emit f (SDigitalRead n) v) w1)"
    if "filter (\<lambda>l. fst l = SDigitalRead n) (listeners (firmatas w f)) = []"
    using digital_sample_arrives [OF start(1) start(4) start(6) start(5) start(8) that] .
next
  assume client: "firmata (boards w this) = Some f"
    and pin: "pin_at this (Some (int (analogPins (firmatas w f) ! k))) w = Some (f, n, x)"
    and call: "updateAnalogInput this k w = Inr (p, w1)"
    and pending: "status (promises w1 ! p) = Pending"
  note start = updateAnalogInput_pending [OF client pin call pending assms]
  note deadline = read_deadline [OF start(1) start(2) [folded start(5)]
      start(3) [folded start(5)] start(4) start(6)]
  show "updating (pins (firmatas w1 f) ! n)" by (rule start(7))
  show "status (promises (elapse j w1) ! p) = Pending"
    if "j < updateAnalogInputWaitingTime (boards w this)"
    using deadline(2) [OF that] .
  show "deadline_passed p f n (updateAnalogInputWaitingTime (boards w this)) w
          (elapse (Suc m) w1)"
    if "updateAnalogInputWaitingTime (boards w this) \<le> Suc m"
    using deadline(1) [OF that] by simp
  show "sample_stored p f n v w (step (Emit f (SAnalogRead k) v) w1)"
    if "filter (\<lambda>l. fst l = SAnalogRead k) (listeners (firmatas w f)) = []"
    using analog_sample_arrives [OF start(1) start(4) start(6) start(5) start(8) that] .
qed

lemma session_analog_pending:
  "pin_at 0 (Some (int (analogPins (firmatas session_ready 0) ! 0))) session_ready =
     Some (0, 2, uno_pin)"
  "status (promises (snd session_analog) ! 1) = Pending"
  by (simp_all add: session_analog_def read_defs session_facts Let_def new_promise_def nth_append)

lemma session_analog_timeout:
  "status (promises (step (Elapse 100) (snd session_analog)) ! 1) = Rejected (TimeoutError 100)"
proof -
  have call: "updateAnalogInput 0 0 session_ready = Inr (1, snd session_analog)"
    using session_analog_read by (metis prod.collapse)
  have wait: "updateAnalogInputWaitingTime (boards session_ready 0) = 100"
    by (simp add: session_facts new_board_def)
  note start = updateAnalogInput_pending [OF session_ready_facts(4) session_analog_pending(1)
      call session_analog_pending(2) session_ready_fresh]
  have "deadline_passed 1 0 2 100 session_ready (elapse 100 (snd session_analog))"
    using read_deadline(1) [OF start(1) start(2) [folded start(5)]
        start(3) [folded start(5)] start(4) start(6), of 100] wait
    by simp
  then show ?thesis by (simp add: deadline_passed_def)
qed

text \<open>
  In the ready session the read of pin 1 is pending after 99 ms and has timed out after
  100 ms: rejected with "timeout 100ms", value 0, flag clear, board 0 still ready on its
  protocol client. Had the sample 1 arrived, it would have been stored. The same holds for
  the analog read of A0 (pin 2) and the sample 512.
\<close>

lemma read_timeout_clears_flag_witness:
  "status (promises (elapse 99 (snd session_digital)) ! 1) = Pending \<and>
   deadline_passed 1 0 1 100 session_ready (elapse 100 (snd session_digital)) \<and>
   state (boards (elapse 100 (snd session_digital)) 0) = Ready \<and>
   firmata (boards (elapse 100 (snd session_digital)) 0) = Some 0 \<and>
   sample_stored 1 0 1 1 session_ready (step (Emit 0 (SDigitalRead 1) 1) (snd session_digital)) \<and>
   status (promises (elapse 99 (snd session_analog)) ! 1) = Pending \<and>
   deadline_passed 1 0 2 100 session_ready (elapse 100 (snd session_analog)) \<and>
   sample_stored 1 0 2 512 session_ready (step (Emit 0 (SAnalogRead 0) 512) (snd session_analog))"
proof -
  have call: "updateDigitalInput 0 (Some 1) session_ready = Inr (1, snd session_digital)"
    using session_digital_read(1,2) by (metis prod.collapse)
  have wait: "updateDigitalInputWaitingTime (boards session_ready 0) = 100"
    by (simp add: session_facts new_board_def)
  have alone: "filter (\<lambda>l. fst l = SDigitalRead 1) (listeners (firmatas session_ready 0)) = []"
    by (simp add: session_facts)
  have acall: "updateAnalogInput 0 0 session_ready = Inr (1, snd session_analog)"
    using session_analog_read by (metis prod.collapse)
  have await: "updateAnalogInputWaitingTime (boards session_ready 0) = 100"
    by (simp add: session_facts new_board_def)
  have aalone: "filter (\<lambda>l. fst l = SAnalogRead 0) (listeners (firmatas session_ready 0)) = []"
    by (simp add: session_facts)
  have hundred: "elapse 100 w = elapse (Suc 99) w" for w
    by (simp del: elapse.simps)
  have digital:
    "status (promises (elapse 99 (snd session_digital)) ! 1) = Pending \<and>
     deadline_passed 1 0 1 100 session_ready (elapse 100 (snd session_digital)) \<and>
     sample_stored 1 0 1 1 session_ready (step (Emit 0 (SDigitalRead 1) 1) (snd session_digital))"
    using read_timeout_clears_flag [OF session_ready_fresh,
        of 0 "Some 1" 0 1 uno_pin 1 "snd session_digital" 99 99 1 0]
      session_digital_read(3,4) call wait alone
    unfolding hundred
    by (simp del: elapse.simps)
  have analog:
    "status (promises (elapse 99 (snd session_analog)) ! 1) = Pending \<and>
     deadline_passed 1 0 2 100 session_ready (elapse 100 (snd session_analog)) \<and>
     sample_stored 1 0 2 512 session_ready (step (Emit 0 (SAnalogRead 0) 512) (snd session_analog))"
    using read_timeout_clears_flag [OF session_ready_fresh,
        of 0 "Some 1" 0 2 uno_pin 1 "snd session_analog" 99 99 512 0]
      session_analog_pending session_ready_facts(4) acall await aalone
    unfolding hundred
    by (simp del: elapse.simps)
  have "boards (elapse 100 (snd session_digital)) = boards session_ready"
    using digital by (simp add: deadline_passed_def)
  then show ?thesis
    using digital analog by (simp add: session_facts del: elapse.simps)
qed

text \<open>
  In the ready session the reporter of A0 gives 50 when the sample 512 arrives
  (512 / 1023 is 50.05 percent), and 0 when the read times out after 100 ms.
\<close>

theorem getAnalogLevel_percentage_witness:
  "block_result (fst (getAnalogLevel 0 session_ready))
     (step (Emit 0 (SAnalogRead 0) 512) (snd session_analog)) = Resolved (VNum 50) \<and>
   block_result (fst (getAnalogLevel 0 session_ready))
     (step (Elapse 100) (snd session_analog)) = Resolved (VNum 0)"
proof -
  have read: "updateAnalogInput (the (blocks_board session_ready)) 0 session_ready =
                Inr (1, snd session_analog)"
    using session_analog_read by (metis option.sel prod.collapse session_ready_facts(3))
  have level: "of_int (round (((512::real) / 1023) * 1000)) / (10::real) = 50"
    by (simp add: round_def)
  note sampled = getAnalogLevel_percentage [OF session_ready_connected read,
      of "step (Emit 0 (SAnalogRead 0) 512) (snd session_analog)" 512 "TimeoutError 100"]
  note late = getAnalogLevel_percentage [OF session_ready_connected read,
      of "step (Elapse 100) (snd session_analog)" 512 "TimeoutError 100"]
  have first: "block_result (fst (getAnalogLevel 0 session_ready))
                 (step (Emit 0 (SAnalogRead 0) 512) (snd session_analog)) = Resolved (VNum 50)"
    using sampled session_analog_sample level by auto
  have second: "block_result (fst (getAnalogLevel 0 session_ready))
                  (step (Elapse 100) (snd session_analog)) = Resolved (VNum 0)"
    using late session_analog_timeout by auto
  show ?thesis using first second by blast
qed

subsection \<open>A board released while a read is in flight\<close>

text \<open>
  The invariants of a pending read carry over to a read whose board has lost its protocol
  client, with one difference: when the timer of the read fires, the cleanup cannot reach
  the pin, and the promise is rejected with the TypeError of the cleanup.
\<close>

lemma settle_promise_orphaned:
  assumes "orphaned p this n w"
  shows "type_errored p (settle_promise p (Rejected (TimeoutError d)) w)"
  using assms
  by (simp add: orphaned_def type_errored_def settle_promise_def read_cleanup_def pin_at_def
      calm_def)

lemma orphaned_quiet:
  assumes "quiet_step w w'" and "promises w' ! p = promises w ! p"
    and "orphaned p this n w"
  shows "orphaned p this n w'"
  using assms by (simp add: orphaned_def quiet_step_def)

lemma type_errored_fire:
  assumes "type_errored p w"
  shows "type_errored p (fire a w)"
proof (cases "timer_pid a = p")
  case True
  have "status (promises w ! timer_pid a) \<noteq> Pending"
    using assms True by (simp add: type_errored_def)
  then have "fire a w = w"
    by (cases a) (simp_all add: settle_promise_done)
  then show ?thesis using assms by simp
next
  case False
  have "quiet_step w (fire a w)" by (rule fire_quiet)
  then show ?thesis
    using assms fire_other [OF False, of w]
    by (simp add: type_errored_def quiet_step_def)
qed

lemma type_errored_fire_all:
  "type_errored p w \<Longrightarrow> type_errored p (fire_all xs w)"
proof (induction xs arbitrary: w)
  case Nil
  then show ?case by (simp add: fire_all_def)
next
  case (Cons x xs)
  have step: "fire_all (x # xs) w = fire_all xs (fire (snd x) w)"
    by (simp add: fire_all_def)
  show ?case
    unfolding step using Cons.IH [OF type_errored_fire [OF Cons.prems]] .
qed

lemma orphaned_fire_all:
  assumes "orphaned p this n w"
    and "list_all (\<lambda>x. timer_pid (snd x) = p \<longrightarrow> snd x = TimeoutReject p d) xs"
  shows "if (\<exists>x \<in> set xs. snd x = TimeoutReject p d)
         then type_errored p (fire_all xs w)
         else orphaned p this n (fire_all xs w)"
  using assms
proof (induction xs arbitrary: w)
  case Nil
  then show ?case by (simp add: fire_all_def)
next
  case (Cons x xs)
  have step: "fire_all (x # xs) w = fire_all xs (fire (snd x) w)"
    by (simp add: fire_all_def)
  show ?case
  proof (cases "snd x = TimeoutReject p d")
    case True
    have "type_errored p (fire (snd x) w)"
      using settle_promise_orphaned [OF Cons.prems(1), of d] True by simp
    then show ?thesis
      unfolding step using True type_errored_fire_all by simp
  next
    case False
    have other: "timer_pid (snd x) \<noteq> p"
      using Cons.prems(2) False by auto
    have "orphaned p this n (fire (snd x) w)"
      using orphaned_quiet [OF fire_quiet(1) fire_other [OF other] Cons.prems(1)] .
    from Cons.IH [OF this] Cons.prems(2) False show ?thesis
      unfolding step by simp
  qed
qed


lemma tick_orphaned:
  assumes fl: "orphaned p this n w"
    and mine: "(T, TimeoutReject p d) \<in> set (timers w)"
    and only: "list_all (\<lambda>x. timer_pid (snd x) = p \<longrightarrow> x = (T, TimeoutReject p d)) (timers w)"
  shows "if T \<le> now w + 1 then type_errored p (tick w)
         else orphaned p this n (tick w) \<and> (T, TimeoutReject p d) \<in> set (timers (tick w)) \<and>
              list_all (\<lambda>x. timer_pid (snd x) = p \<longrightarrow> x = (T, TimeoutReject p d))
                (timers (tick w))"
proof -
  let ?w1 = "w\<lparr>now := now w + 1, timers := filter (\<lambda>x. \<not> fst x \<le> now w + 1) (timers w)\<rparr>"
  let ?due = "filter (\<lambda>x. fst x \<le> now w + 1) (timers w)"
  have fl1: "orphaned p this n ?w1"
    using fl by (simp add: orphaned_def)
  have only_due: "list_all (\<lambda>x. timer_pid (snd x) = p \<longrightarrow> snd x = TimeoutReject p d) ?due"
    using only by (auto simp: list_all_iff)
  note main = orphaned_fire_all [OF fl1 only_due]
  show ?thesis
  proof (cases "T \<le> now w + 1")
    case True
    then have "\<exists>x \<in> set ?due. snd x = TimeoutReject p d"
      using mine by force
    then show ?thesis
      using main True unfolding tick_fire_all by simp
  next
    case False
    have "\<not> (\<exists>x \<in> set ?due. snd x = TimeoutReject p d)"
    proof
      assume "\<exists>x \<in> set ?due. snd x = TimeoutReject p d"
      then obtain x where x: "x \<in> set (timers w)" "fst x \<le> now w + 1"
        "snd x = TimeoutReject p d"
        by auto
      then have "x = (T, TimeoutReject p d)"
        using only by (auto simp: list_all_iff)
      then show False using x(2) False by simp
    qed
    then have "orphaned p this n (tick w)"
      using main unfolding tick_fire_all by simp
    moreover have "(T, TimeoutReject p d) \<in> set (timers (tick w))"
      using mine False by (simp add: tick_quiet)
    moreover have "list_all (\<lambda>x. timer_pid (snd x) = p \<longrightarrow> x = (T, TimeoutReject p d))
                     (timers (tick w))"
      using only by (simp add: tick_quiet list_all_iff)
    ultimately show ?thesis using False by simp
  qed
qed

lemma type_errored_tick: "type_errored p w \<Longrightarrow> type_errored p (tick w)"
proof -
  assume "type_errored p w"
  then have "type_errored p
               (w\<lparr>now := now w + 1, timers := filter (\<lambda>x. \<not> fst x \<le> now w + 1) (timers w)\<rparr>)"
    by (simp add: type_errored_def)
  from type_errored_fire_all [OF this] show ?thesis
    unfolding tick_fire_all .
qed

lemma type_errored_elapse: "type_errored p w \<Longrightarrow> type_errored p (elapse k w)"
  by (induction k arbitrary: w) (simp_all add: type_errored_tick)

lemma elapse_orphaned:
  assumes "orphaned p this n w"
    and "(T, TimeoutReject p d) \<in> set (timers w)"
    and "list_all (\<lambda>x. timer_pid (snd x) = p \<longrightarrow> x = (T, TimeoutReject p d)) (timers w)"
  shows "if T \<le> now w + int k \<and> 0 < k then type_errored p (elapse k w)
         else orphaned p this n (elapse k w)"
  using assms
proof (induction k arbitrary: w)
  case 0
  then show ?case by simp
next
  case (Suc k)
  note step = tick_orphaned [OF Suc.prems]
  show ?case
  proof (cases "T \<le> now w + 1")
    case True
    then have "type_errored p (tick w)" using step by simp
    from type_errored_elapse [OF this] True show ?thesis by simp
  next
    case False
    then have next_world: "orphaned p this n (tick w)"
      "(T, TimeoutReject p d) \<in> set (timers (tick w))"
      "list_all (\<lambda>x. timer_pid (snd x) = p \<longrightarrow> x = (T, TimeoutReject p d)) (timers (tick w))"
      using step by simp_all
    have clock: "now (tick w) = now w + 1" by (simp add: tick_quiet)
    have same: "(T \<le> now (tick w) + int k \<and> 0 < k) = (T \<le> now w + int (Suc k) \<and> 0 < Suc k)"
      using False clock by (cases k) auto
    show ?thesis
      using Suc.IH [OF next_world] unfolding same elapse.simps(2) .
  qed
qed

text \<open>
  A cleanup reaches a pin only through the board that requested the read. The pins of a
  Firmata instance that no board has as its protocol client are therefore out of the
  reach of every timer.
\<close>

lemma read_cleanup_ownerless:
  assumes "ownerless f w"
  shows "firmatas (read_cleanup q t n s w) f = firmatas w f"
  using assms
  by (auto simp: read_cleanup_def pin_at_def ownerless_def
      split: option.splits settle.splits if_splits)

lemma settle_promise_ownerless:
  assumes "quiet s" and "ownerless f w"
  shows "firmatas (settle_promise q s w) f = firmatas w f"
  using assms
  by (auto simp: settle_promise_def quiet_reactions read_cleanup_ownerless
      split: option.splits)

lemma ownerless_quiet: "quiet_step w w' \<Longrightarrow> ownerless f w \<Longrightarrow> ownerless f w'"
  by (simp add: ownerless_def quiet_step_def)

lemma fire_ownerless:
  assumes "ownerless f w"
  shows "firmatas (fire a w) f = firmatas w f" and "ownerless f (fire a w)"
proof -
  show "firmatas (fire a w) f = firmatas w f"
    using assms by (cases a) (simp_all add: settle_promise_ownerless)
  show "ownerless f (fire a w)"
    using ownerless_quiet [OF fire_quiet(1) assms] .
qed

lemma fire_all_ownerless:
  "ownerless f w \<Longrightarrow> firmatas (fire_all xs w) f = firmatas w f \<and> ownerless f (fire_all xs w)"
proof (induction xs arbitrary: w)
  case Nil
  then show ?case by (simp add: fire_all_def)
next
  case (Cons x xs)
  have step: "fire_all (x # xs) w = fire_all xs (fire (snd x) w)"
    by (simp add: fire_all_def)
  show ?case
    unfolding step
    using Cons.IH [OF fire_ownerless(2) [OF Cons.prems]] fire_ownerless(1) [OF Cons.prems]
    by simp
qed

lemma tick_ownerless:
  assumes "ownerless f w"
  shows "firmatas (tick w) f = firmatas w f \<and> ownerless f (tick w)"
proof -
  have "ownerless f
          (w\<lparr>now := now w + 1, timers := filter (\<lambda>x. \<not> fst x \<le> now w + 1) (timers w)\<rparr>)"
    using assms by (simp add: ownerless_def)
  from fire_all_ownerless [OF this] show ?thesis
    unfolding tick_fire_all by simp
qed

lemma elapse_ownerless:
  "ownerless f w \<Longrightarrow> firmatas (elapse k w) f = firmatas w f \<and> ownerless f (elapse k w)"
proof (induction k arbitrary: w)
  case 0
  then show ?case by simp
next
  case (Suc k)
  note first = tick_ownerless [OF Suc.prems]
  from Suc.IH [of "tick w"] first show ?case by simp
qed

text \<open>
  A read is in flight on the board \<open>this\<close>, and the board is disconnected before anything
  else happens. Once the deadline of the read has passed, its promise is rejected with a
  TypeError, and the pins of the instance the read was requested on are as the disconnect
  found them.
\<close>

lemma disconnect_in_flight:
  assumes fl: "inflight p this n f w1"
    and mine: "(T, TimeoutReject p d) \<in> set (timers w1)"
    and only: "list_all (\<lambda>x. timer_pid (snd x) = p \<longrightarrow> x = (T, TimeoutReject p d)) (timers w1)"
    and live: "state (boards w1 this) \<noteq> Disconnect"
    and sole: "sole_owner this f w1"
    and late: "T \<le> now w1 + int (Suc m)"
  shows "status (promises (elapse (Suc m) (disconnect this w1)) ! p) = Rejected TypeError"
    and "pins (firmatas (elapse (Suc m) (disconnect this w1)) f) = pins (firmatas w1 f)"
    and "state (boards (elapse (Suc m) (disconnect this w1)) this) = Disconnect"
    and "firmata (boards (elapse (Suc m) (disconnect this w1)) this) = None"
proof -
  let ?w2 = "disconnect this w1"
  have w2: "?w2 = releaseBoard this (call f Reset w1)"
    using fl live by (simp add: disconnect_def inflight_def)
  have orph: "orphaned p this n ?w2"
    unfolding w2 using fl by (simp add: orphaned_def inflight_def releaseBoard_fields)
  have mine2: "(T, TimeoutReject p d) \<in> set (timers ?w2)"
    unfolding w2 using mine by (simp add: releaseBoard_fields)
  have only2: "list_all (\<lambda>x. timer_pid (snd x) = p \<longrightarrow> x = (T, TimeoutReject p d)) (timers ?w2)"
    unfolding w2 using only by (simp add: releaseBoard_fields)
  have clock: "now ?w2 = now w1"
    unfolding w2 by (simp add: releaseBoard_fields)
  have own: "ownerless f ?w2"
    unfolding w2 using sole by (auto simp: ownerless_def sole_owner_def releaseBoard_fields)
  have "type_errored p (elapse (Suc m) ?w2)"
    using elapse_orphaned [OF orph mine2 only2, of "Suc m"] late clock by simp
  then show "status (promises (elapse (Suc m) ?w2) ! p) = Rejected TypeError"
    by (simp add: type_errored_def)
  have "pins (firmatas ?w2 f) = pins (firmatas w1 f)"
    unfolding w2 by (simp add: releaseBoard_fields)
  then show "pins (firmatas (elapse (Suc m) ?w2) f) = pins (firmatas w1 f)"
    using elapse_ownerless [OF own, of "Suc m"] by simp
  have same: "boards (elapse (Suc m) ?w2) = boards ?w2"
    using elapse_quiet [of ?w2 "Suc m"] by (simp add: quiet_step_def)
  have gone: "state (boards ?w2 this) = Disconnect" "firmata (boards ?w2 this) = None"
    unfolding w2 by (simp_all add: releaseBoard_fields)
  show "state (boards (elapse (Suc m) ?w2) this) = Disconnect"
    using same gone(1) by (simp del: elapse.simps)
  show "firmata (boards (elapse (Suc m) ?w2) this) = None"
    using same gone(2) by (simp del: elapse.simps)
qed

lemma session_high_facts:
  "state (boards session_high 0) = Ready"
  "blocks_board session_high = Some 0"
  "firmata (boards session_high 0) = Some 0"
  "pins (firmatas session_high 0) =
     [uno_pin, uno_pin\<lparr>pin_value := 1\<rparr>, uno_pin\<lparr>pin_value := 512\<rparr>, uno_pin]"
  "analogPins (firmatas session_high 0) = [2, 3]"
  "timers session_high = []"
  "now session_high = 1000"
  "length (promises session_high) = 1"
  "updateDigitalInputWaitingTime (boards session_high 0) = 100"
  "updateAnalogInputWaitingTime (boards session_high 0) = 100"
  "digitalReadInterval (boards session_high 0) = 20"
  "analogReadInterval (boards session_high 0) = 20"
  by (simp_all add: session_high_def world_defs uno_high_def uno_def akadako_def)

lemma session_high_owner: "sole_owner 0 0 session_high"
  by (simp add: sole_owner_def session_high_def world_defs uno_high_def uno_def akadako_def)

lemma session_high_reading:
  "updateDigitalInput 0 (Some 1) session_high = Inr session_high_read"
  "fst session_high_read = 1"
  "pin_at 0 (Some 1) session_high = Some (0, 1, uno_pin\<lparr>pin_value := 1\<rparr>)"
  "status (promises (snd session_high_read) ! 1) = Pending"
  "blocks_board (snd session_high_read) = Some 0"
  by (simp_all add: session_high_read_def read_defs session_high_facts Let_def new_promise_def
      nth_append)

lemma session_high_analog_reading:
  "updateAnalogInput 0 0 session_high = Inr session_high_analog"
  "fst session_high_analog = 1"
  "pin_at 0 (Some (int (analogPins (firmatas session_high 0) ! 0))) session_high =
     Some (0, 2, uno_pin\<lparr>pin_value := 512\<rparr>)"
  "status (promises (snd session_high_analog) ! 1) = Pending"
  "blocks_board (snd session_high_analog) = Some 0"
  by (simp_all add: session_high_analog_def read_defs session_high_facts Let_def
      new_promise_def nth_append)

text \<open>
  C4. The flag of a read is not cleared on every exit path, and a read that gets no sample
  does not always reject with the timeout error. When the board is disconnected while a
  read (digital or analog) is in flight, the \<open>catch\<close> and \<open>finally\<close> callbacks of the read
  run at its deadline on a board whose \<open>firmata\<close> is null, and \<open>this.pins\<close> throws in both.
  The promise is rejected with that TypeError instead of the timeout error, the cached
  value of the pin is not reset to 0, and the flag the read has set stays set.
\<close>

theorem read_released_in_flight:
  assumes "timers_fresh w" and "state (boards w this) \<noteq> Disconnect"
    and "sole_owner this f w"
  shows
    "(pin_at this i w = Some (f, n, x) \<longrightarrow> updateDigitalInput this i w = Inr (p, w1) \<longrightarrow>
      status (promises w1 ! p) = Pending \<longrightarrow>
      updateDigitalInputWaitingTime (boards w this) \<le> Suc m \<longrightarrow>
        cleanup_failed p this f n (pin_value x) (elapse (Suc m) (disconnect this w1))) \<and>
     (firmata (boards w this) = Some f \<longrightarrow>
      pin_at this (Some (int (analogPins (firmatas w f) ! k))) w = Some (f, n, x) \<longrightarrow>
      updateAnalogInput this k w = Inr (p, w1) \<longrightarrow> status (promises w1 ! p) = Pending \<longrightarrow>
      updateAnalogInputWaitingTime (boards w this) \<le> Suc m \<longrightarrow>
        cleanup_failed p this f n (pin_value x) (elapse (Suc m) (disconnect this w1)))"
proof (intro conjI impI)
  assume pin: "pin_at this i w = Some (f, n, x)"
    and call: "updateDigitalInput this i w = Inr (p, w1)"
    and pending: "status (promises w1 ! p) = Pending"
    and late: "updateDigitalInputWaitingTime (boards w this) \<le> Suc m"
  note start = updateDigitalInput_pending [OF pin call pending assms(1)]
  have live: "state (boards w1 this) \<noteq> Disconnect"
    using assms(2) start(4) by simp
  have sole: "sole_owner this f w1"
    using assms(3) start(4) by (simp add: sole_owner_def)
  have due: "now w + int (updateDigitalInputWaitingTime (boards w this)) \<le> now w1 + int (Suc m)"
    using late start(5) by simp
  note after = disconnect_in_flight [OF start(1) start(2) start(3) live sole due]
  show "cleanup_failed p this f n (pin_value x) (elapse (Suc m) (disconnect this w1))"
    using after start(7) start(13) by (simp add: cleanup_failed_def del: elapse.simps)
next
  assume client: "firmata (boards w this) = Some f"
    and pin: "pin_at this (Some (int (analogPins (firmatas w f) ! k))) w = Some (f, n, x)"
    and call: "updateAnalogInput this k w = Inr (p, w1)"
    and pending: "status (promises w1 ! p) = Pending"
    and late: "updateAnalogInputWaitingTime (boards w this) \<le> Suc m"
  note start = updateAnalogInput_pending [OF client pin call pending assms(1)]
  have live: "state (boards w1 this) \<noteq> Disconnect"
    using assms(2) start(4) by simp
  have sole: "sole_owner this f w1"
    using assms(3) start(4) by (simp add: sole_owner_def)
  have due: "now w + int (updateAnalogInputWaitingTime (boards w this)) \<le> now w1 + int (Suc m)"
    using late start(5) by simp
  note after = disconnect_in_flight [OF start(1) start(2) start(3) live sole due]
  show "cleanup_failed p this f n (pin_value x) (elapse (Suc m) (disconnect this w1))"
    using after start(7) start(10) by (simp add: cleanup_failed_def del: elapse.simps)
qed

text \<open>
  In the ready session whose pin 1 holds 1, the digital read of pin 1 is requested and the
  blocks disconnect the board while it is in flight. After 100 ms the promise of the read
  is rejected with a TypeError, not with "timeout 100ms"; pin 1 still holds 1 and its flag
  is still set. The same holds for the analog read of A0 (pin 2, holding 512).
\<close>

theorem read_released_in_flight_witness:
  "status (promises (snd session_high_read) ! 1) = Pending \<and>
   status (promises (elapse 100 (disconnectBoard (snd session_high_read))) ! 1) =
     Rejected TypeError \<and>
   updating (pins (firmatas (elapse 100 (disconnectBoard (snd session_high_read))) 0) ! 1) \<and>
   pin_value (pins (firmatas (elapse 100 (disconnectBoard (snd session_high_read))) 0) ! 1) = 1 \<and>
   state (boards (elapse 100 (disconnectBoard (snd session_high_read))) 0) = Disconnect \<and>
   status (promises (snd session_high_analog) ! 1) = Pending \<and>
   status (promises (elapse 100 (disconnectBoard (snd session_high_analog))) ! 1) =
     Rejected TypeError \<and>
   updating (pins (firmatas (elapse 100 (disconnectBoard (snd session_high_analog))) 0) ! 2) \<and>
   pin_value (pins (firmatas (elapse 100 (disconnectBoard (snd session_high_analog))) 0) ! 2) =
     512"
proof -
  have call: "updateDigitalInput 0 (Some 1) session_high = Inr (1, snd session_high_read)"
    using session_high_reading(1,2) by (metis prod.collapse)
  have acall: "updateAnalogInput 0 0 session_high = Inr (1, snd session_high_analog)"
    using session_high_analog_reading(1,2) by (metis prod.collapse)
  have fresh: "timers_fresh session_high"
    by (simp add: timers_fresh_def session_high_facts)
  have live: "state (boards session_high 0) \<noteq> Disconnect"
    by (simp add: session_high_facts)
  have released: "disconnectBoard (snd session_high_read) = disconnect 0 (snd session_high_read)"
    "disconnectBoard (snd session_high_analog) = disconnect 0 (snd session_high_analog)"
    by (simp_all add: disconnectBoard_def session_high_reading(5)
        session_high_analog_reading(5))
  have hundred: "elapse 100 w = elapse (Suc 99) w" for w
    by (simp del: elapse.simps)
  have digital:
    "cleanup_failed 1 0 0 1 1 (elapse (Suc 99) (disconnect 0 (snd session_high_read)))"
    using read_released_in_flight [OF fresh live session_high_owner,
        of "Some 1" 1 "uno_pin\<lparr>pin_value := 1\<rparr>" 1 "snd session_high_read" 99 0]
      session_high_reading(3,4) call session_high_facts(9)
    by (simp del: elapse.simps)
  have analog:
    "cleanup_failed 1 0 0 2 512 (elapse (Suc 99) (disconnect 0 (snd session_high_analog)))"
    using read_released_in_flight [OF fresh live session_high_owner,
        of "Some 1" 2 "uno_pin\<lparr>pin_value := 512\<rparr>" 1 "snd session_high_analog" 99 0]
      session_high_analog_reading(3,4) acall session_high_facts(3,10)
    by (simp del: elapse.simps)
  show ?thesis
    unfolding released hundred
    using digital analog session_high_reading(4) session_high_analog_reading(4)
    by (simp add: cleanup_failed_def del: elapse.simps)
qed

subsection \<open>The second read\<close>










subsection \<open>Stale signals\<close>

lemma stale_listener_discards: "stale_listener f w h \<Longrightarrow> run_handler f v h w = Some w"
  by (cases h) (simp_all add: stale_listener_def)

lemma stale_listener_frame [simp]:
  "stale_listener f (upd_firmata g u w) = stale_listener f w"
  by (rule ext) (simp add: stale_listener_def split: option.splits)

lemma listeners_overwritten:
  "upd_firmata f (\<lambda>fo. fo\<lparr>listeners := ls\<rparr>) (upd_firmata f (\<lambda>fo. fo\<lparr>listeners := ls'\<rparr>) w) =
   upd_firmata f (\<lambda>fo. fo\<lparr>listeners := ls\<rparr>) w"
  by (simp add: upd_firmata_def)

lemma run_handlers_stale:
  "list_all (stale_listener f w) hs \<Longrightarrow>
   \<exists>ls. run_handlers f s v hs w = upd_firmata f (\<lambda>fo. fo\<lparr>listeners := ls\<rparr>) w"
proof (induction hs arbitrary: w)
  case Nil
  have "w = upd_firmata f (\<lambda>fo. fo\<lparr>listeners := listeners (firmatas w f)\<rparr>) w"
    by (simp add: upd_firmata_def)
  then show ?case by (auto intro: exI[of _ "listeners (firmatas w f)"])
next
  case (Cons h hs)
  let ?w1 = "upd_firmata f (\<lambda>fo. fo\<lparr>listeners := remove1 (s, h) (listeners fo)\<rparr>) w"
  have w1: "?w1 = upd_firmata f (\<lambda>fo. fo\<lparr>listeners := remove1 (s, h) (listeners (firmatas w f))\<rparr>) w"
    by (simp add: upd_firmata_def)
  have h: "run_handler f v h ?w1 = Some ?w1"
    using Cons.prems by (simp add: stale_listener_discards)
  have "list_all (stale_listener f ?w1) hs"
    using Cons.prems by simp
  from Cons.IH [OF this] obtain ls where
    "run_handlers f s v hs ?w1 = upd_firmata f (\<lambda>fo. fo\<lparr>listeners := ls\<rparr>) ?w1"
    by blast
  then have "run_handlers f s v (h # hs) w = upd_firmata f (\<lambda>fo. fo\<lparr>listeners := ls\<rparr>) w"
    using h by (simp add: w1 listeners_overwritten)
  then show ?case by blast
qed

lemma only_listeners_differ_fields:
  assumes "only_listeners_differ f w w'"
  shows "boards w' = boards w" "promises w' = promises w" "timers w' = timers w"
    "board_emitted w' = board_emitted w" "connector_emitted w' = connector_emitted w"
    "runtime_emitted w' = runtime_emitted w" "connector_boards w' = connector_boards w"
    "blocks_board w' = blocks_board w"
    "pins (firmatas w' g) = pins (firmatas w g)" "sent (firmatas w' g) = sent (firmatas w g)"
proof -
  have w': "w' = upd_firmata f (\<lambda>fo. fo\<lparr>listeners := listeners (firmatas w' f)\<rparr>) w"
    using assms by (simp add: only_listeners_differ_def)
  show "boards w' = boards w" "promises w' = promises w" "timers w' = timers w"
    "board_emitted w' = board_emitted w" "connector_emitted w' = connector_emitted w"
    "runtime_emitted w' = runtime_emitted w" "connector_boards w' = connector_boards w"
    "blocks_board w' = blocks_board w"
    "pins (firmatas w' g) = pins (firmatas w g)" "sent (firmatas w' g) = sent (firmatas w g)"
    by (subst w', simp)+
qed

lemma stale_emit:
  assumes "list_all (stale_listener f w) (listeners_for f s w)"
  shows "only_listeners_differ f w (step (Emit f s v) w)"
proof -
  obtain ls where ls: "step (Emit f s v) w = upd_firmata f (\<lambda>fo. fo\<lparr>listeners := ls\<rparr>) w"
    using run_handlers_stale [OF assms [unfolded listeners_for_def], of s v]
    by (auto simp: firmata_emit_def)
  show ?thesis
    unfolding only_listeners_differ_def ls by (simp add: upd_firmata_def)
qed

text \<open>
  C3. Each of the five lifecycle listeners (open, close, disconnect, error, ready), run
  for a signal of an instance that is not the current protocol client of its board,
  returns the world it was given. Hence, when every listener that a signal of the instance
  \<open>f\<close> would run is such a stale lifecycle listener, delivering the signal leaves the
  world as it is but for the list of listeners attached to \<open>f\<close> (they are once-listeners
  and are detached): no board field, no pin, no promise, no timer and no emission changes.
\<close>

theorem stale_signal_changes_nothing:
  "(firmata (boards w this) \<noteq> Some f \<longrightarrow>
      run_handler f v (HOpen this) w = Some w \<and>
      run_handler f v (HClose this) w = Some w \<and>
      run_handler f v (HDisconnect this) w = Some w \<and>
      run_handler f v (HError this) w = Some w \<and>
      run_handler f v (HReady this p) w = Some w) \<and>
   (list_all (stale_listener f w) (listeners_for f s w) \<longrightarrow>
      only_listeners_differ f w (step (Emit f s v) w) \<and>
      boards (step (Emit f s v) w) = boards w \<and>
      promises (step (Emit f s v) w) = promises w \<and>
      pins (firmatas (step (Emit f s v) w) g) = pins (firmatas w g) \<and>
      sent (firmatas (step (Emit f s v) w) g) = sent (firmatas w g) \<and>
      board_emitted (step (Emit f s v) w) = board_emitted w \<and>
      connector_emitted (step (Emit f s v) w) = connector_emitted w \<and>
      runtime_emitted (step (Emit f s v) w) = runtime_emitted w)"
proof (intro conjI impI)
  assume stale: "list_all (stale_listener f w) (listeners_for f s w)"
  note same = only_listeners_differ_fields [OF stale_emit [OF stale, of v]]
  show "only_listeners_differ f w (step (Emit f s v) w)"
    by (rule stale_emit [OF stale])
  show "boards (step (Emit f s v) w) = boards w" by (rule same)
  show "promises (step (Emit f s v) w) = promises w" by (rule same)
  show "pins (firmatas (step (Emit f s v) w) g) = pins (firmatas w g)" by (rule same)
  show "sent (firmatas (step (Emit f s v) w) g) = sent (firmatas w g)" by (rule same)
  show "board_emitted (step (Emit f s v) w) = board_emitted w" by (rule same)
  show "connector_emitted (step (Emit f s v) w) = connector_emitted w" by (rule same)
  show "runtime_emitted (step (Emit f s v) w) = runtime_emitted w" by (rule same)
qed simp_all

lemma session_stale_facts:
  "state (boards session_stale 0) = Disconnect"
  "firmata (boards session_stale 0) = None"
  "listeners (firmatas session_stale 0) =
     [(SClose, HClose 0), (SDisconnect, HDisconnect 0), (SError, HError 0)]"
  "runtime_emitted session_stale =
     [PERIPHERAL_CONNECTED (Some akadako), PERIPHERAL_DISCONNECTED (Some akadako)]"
  "board_emitted session_stale = [(0, RELEASED)]"
  by (simp_all add: session_stale_def disconnectBoard_def disconnect_def releaseBoard_def
      try_close_def emit_RELEASED_def on_released_def removeBoard_def Let_def
      world_defs uno_stuck_def uno_def akadako_def)

text \<open>
  In the session whose transport could not be closed, the old protocol client reports
  "error" after the release: its error listener runs and is detached, and the board stays
  disconnected, released once, with no lost-connection notice to the host.
\<close>

theorem stale_signal_changes_nothing_witness:
  "run_handler 0 0 (HError 0) session_stale = Some session_stale \<and>
   only_listeners_differ 0 session_stale (step (Emit 0 SError 0) session_stale) \<and>
   state (boards (step (Emit 0 SError 0) session_stale) 0) = Disconnect \<and>
   board_emitted (step (Emit 0 SError 0) session_stale) = [(0, RELEASED)] \<and>
   runtime_emitted (step (Emit 0 SError 0) session_stale) =
     [PERIPHERAL_CONNECTED (Some akadako), PERIPHERAL_DISCONNECTED (Some akadako)]"
proof -
  have stale: "list_all (stale_listener 0 session_stale) (listeners_for 0 SError session_stale)"
    by (simp add: listeners_for_def stale_listener_def session_stale_facts)
  have client: "firmata (boards session_stale 0) \<noteq> Some 0"
    by (simp add: session_stale_facts)
  show ?thesis
    using stale_signal_changes_nothing [of session_stale 0 0 0 0 SError 0] stale client
    by (simp add: session_stale_facts)
qed

subsection \<open>Connecting\<close>

lemma fresh_request:
  assumes "requests_fresh w"
  shows "map_of (requests w @ [(length (promises w), this)]) (length (promises w)) = Some this"
    and "filter (\<lambda>r. fst r \<noteq> length (promises w)) (requests w @ [(length (promises w), this)]) =
           requests w"
proof -
  have other: "\<forall>r \<in> set (requests w). fst r \<noteq> length (promises w)"
    using assms by (auto simp: requests_fresh_def list_all_iff)
  then have "map_of (requests w) (length (promises w)) = None"
    by (auto simp: map_of_eq_None_iff)
  then show "map_of (requests w @ [(length (promises w), this)]) (length (promises w)) = Some this"
    by (simp add: map_add_def)
  show "filter (\<lambda>r. fst r \<noteq> length (promises w)) (requests w @ [(length (promises w), this)]) =
          requests w"
    using other by (simp add: filter_id_conv)
qed

lemma fresh_timers_pending:
  "timers_fresh w \<Longrightarrow> list_all (\<lambda>x. timer_pid (snd x) \<noteq> length (promises w)) (timers w)"
  by (auto simp: timers_fresh_def list_all_iff)

text \<open>The world right after \<open>connectSerial\<close> on a board without protocol client.\<close>

lemma connectSerial_requesting:
  assumes "firmata (boards w this) = None"
  shows "connectSerial this w =
           (length (promises w),
            (upd_board this (\<lambda>b. b\<lparr>state := PortRequesting\<rparr>) w)
              \<lparr>promises := promises w @ [\<lparr>status = Pending, cleanup = None, thens = []\<rparr>],
               requests := requests w @ [(length (promises w), this)]\<rparr>)"
  using assms by (simp add: connectSerial_def new_promise_def)

text \<open>
  A world in which the connect call \<open>p\<close> of the board \<open>this\<close> waits for "ready" on the
  instance \<open>f\<close>, and what follows from it: the wait never ends by itself, and "ready"
  ends it whenever it comes.
\<close>

lemma waiting_for_ready:
  assumes board: "firmata (boards w this) = Some f"
    and promise: "p < length (promises w)" "promises w ! p = \<lparr>status = Pending, cleanup = None, thens = []\<rparr>"
    and timers: "list_all (\<lambda>x. timer_pid (snd x) \<noteq> p) (timers w)"
    and ready: "listeners_for f SReady w = [HReady this p]"
  shows "status (promises (elapse k w) ! p) = Pending"
    and "boards (elapse k w) = boards w"
    and "status (promises (step (Emit f SReady v) (elapse k w)) ! p) = Resolved (VBoard this)"
    and "state (boards (step (Emit f SReady v) (elapse k w)) this) = Ready"
proof -
  note quiet = elapse_quiet [of w k]
  have same: "promises (elapse k w) ! p = promises w ! p"
    by (rule elapse_other [OF timers])
  show "status (promises (elapse k w) ! p) = Pending"
    using same promise by simp
  show boards: "boards (elapse k w) = boards w"
    using quiet by (simp add: quiet_step_def)
  have len: "p < length (promises (elapse k w))"
    using quiet promise by (simp add: quiet_step_def)
  have hs: "listeners_for f SReady (elapse k w) = [HReady this p]"
    using quiet ready by (simp add: quiet_step_def listeners_for_def)
  show "status (promises (step (Emit f SReady v) (elapse k w)) ! p) = Resolved (VBoard this)"
    using hs [unfolded listeners_for_def] boards board len same promise
    by (simp add: firmata_emit_def onBoarReady_def settle_promise_def)
  show "state (boards (step (Emit f SReady v) (elapse k w)) this) = Ready"
    using hs [unfolded listeners_for_def] boards board len same promise
    by (simp add: firmata_emit_def onBoarReady_def settle_promise_def)
qed

lemma session_waiting_facts:
  "status (promises session_waiting ! 0) = Pending"
  "promises session_waiting ! 0 = \<lparr>status = Pending, cleanup = None, thens = []\<rparr>"
  "length (promises session_waiting) = 1"
  "state (boards session_waiting 0) = Connect"
  "firmata (boards session_waiting 0) = Some 0"
  "timers session_waiting = []"
  "connectingWaitingTime (boards session_waiting 0) = 1000"
  by (simp_all add: session_waiting_def world_defs uno_def akadako_def)

text \<open>
  C1, as the specification states it, fails: board 0 connects with a waiting time of
  1000 ms, the port is granted and opens, "ready" never comes. After 5000 ms the call is
  still pending and the board is still connected to its protocol client: the call has
  not failed and nothing has been released.
\<close>

theorem connect_deadline_counterexample:
  "connectingWaitingTime (boards session_waiting 0) = 1000 \<and>
   status (promises (elapse 5000 session_waiting) ! 0) = Pending \<and>
   state (boards (elapse 5000 session_waiting) 0) = Connect \<and>
   firmata (boards (elapse 5000 session_waiting) 0) = Some 0 \<and>
   \<not> handshake_timed_out 0 0 (elapse 5000 session_waiting)"
proof -
  have "list_all (\<lambda>x. timer_pid (snd x) \<noteq> 0) (timers session_waiting)"
    by (simp add: session_waiting_facts)
  from elapse_other [OF this, of 5000]
  have pending: "status (promises (elapse 5000 session_waiting) ! 0) = Pending"
    by (simp add: session_waiting_facts del: elapse.simps)
  have boards: "boards (elapse 5000 session_waiting) = boards session_waiting"
    using elapse_quiet [of session_waiting 5000] by (simp add: quiet_step_def)
  show ?thesis
    using pending boards by (simp add: handshake_timed_out_def session_waiting_facts)
qed

text \<open>
  C1, amended. \<open>connectSerial\<close> on a board without protocol client sets no timer and
  never reads the connecting waiting time. The call is pending, and stays pending however
  much time passes, in each of its three suspensions: while the port request is
  unanswered (state portRequesting), after the port is granted (state portRequesting,
  protocol client installed), and after "open" (state connect). Whenever "ready" then
  comes, the call resolves with the board, which becomes ready. The call fails only when
  the port request fails: the board is released (state disconnect, no protocol client) and
  the call rejects with the reason of that failure.
\<close>

theorem connectSerial_has_no_deadline:
  assumes idle: "firmata (boards w this) = None"
    and fresh: "timers_fresh w" "requests_fresh w"
    and call: "connectSerial this w = (p, w1)"
    and granted: "granted = step (PortGranted p info fo) w1"
    and opened: "opened = step (Emit (nfirmatas w) SOpen v) granted"
    and denied: "denied = step (PortDenied p reason) w1"
  shows "timers w1 = timers w \<and>
         status (promises (elapse k w1) ! p) = Pending \<and>
         state (boards (elapse k w1) this) = PortRequesting \<and>
         status (promises (elapse k granted) ! p) = Pending \<and>
         state (boards (elapse k granted) this) = PortRequesting \<and>
         firmata (boards (elapse k granted) this) = Some (nfirmatas w) \<and>
         status (promises (elapse k opened) ! p) = Pending \<and>
         state (boards (elapse k opened) this) = Connect \<and>
         firmata (boards (elapse k opened) this) = Some (nfirmatas w) \<and>
         status (promises (step (Emit (nfirmatas w) SReady v) (elapse k opened)) ! p) =
           Resolved (VBoard this) \<and>
         state (boards (step (Emit (nfirmatas w) SReady v) (elapse k opened)) this) = Ready \<and>
         status (promises denied ! p) = Rejected reason \<and>
         state (boards denied this) = Disconnect \<and>
         firmata (boards denied this) = None"
proof -
  let ?f = "nfirmatas w"
  note c = connectSerial_requesting [OF idle]
  have p: "p = length (promises w)" and w1: "w1 =
      (upd_board this (\<lambda>b. b\<lparr>state := PortRequesting\<rparr>) w)
        \<lparr>promises := promises w @ [\<lparr>status = Pending, cleanup = None, thens = []\<rparr>],
         requests := requests w @ [(length (promises w), this)]\<rparr>"
    using call c by auto
  note req = fresh_request [OF fresh(2), of this]
  have others: "list_all (\<lambda>x. timer_pid (snd x) \<noteq> p) (timers w)"
    unfolding p by (rule fresh_timers_pending [OF fresh(1)])
  have t1: "timers w1 = timers w" unfolding w1 by simp
  have pr1: "promises w1 ! p = \<lparr>status = Pending, cleanup = None, thens = []\<rparr>"
    unfolding w1 p by simp
  have s1: "state (boards w1 this) = PortRequesting" unfolding w1 by simp
  have a1: "status (promises (elapse k w1) ! p) = Pending"
    using elapse_other [of p w1 k] others t1 pr1 by simp
  have a2: "state (boards (elapse k w1) this) = PortRequesting"
    using elapse_quiet [of w1 k] s1 by (simp add: quiet_step_def)
  have g: "granted = port_granted p this info fo (w1\<lparr>requests := requests w\<rparr>)"
    unfolding granted using req by (simp add: w1 p)
  have tg: "timers granted = timers w"
    and prg: "promises granted ! p = \<lparr>status = Pending, cleanup = None, thens = []\<rparr>"
    and leng: "p < length (promises granted)"
    and sg: "state (boards granted this) = PortRequesting"
    and fg: "firmata (boards granted this) = Some ?f"
    and lg: "listeners (firmatas granted ?f) =
               [(SOpen, HOpen this), (SClose, HClose this), (SDisconnect, HDisconnect this),
                (SError, HError this), (SReady, HReady this p)]"
    unfolding g w1 p
    by (simp_all add: port_granted_def setupFirmata_def DEBUG_def Let_def)
  have b1: "status (promises (elapse k granted) ! p) = Pending"
    using elapse_other [of p granted k] others tg prg by simp
  have b2: "state (boards (elapse k granted) this) = PortRequesting"
    and b3: "firmata (boards (elapse k granted) this) = Some ?f"
    using elapse_quiet [of granted k] sg fg by (simp_all add: quiet_step_def)
  have o: "opened =
      upd_board this (\<lambda>b. b\<lparr>state := Connect\<rparr>)
        (upd_firmata ?f (\<lambda>fo. fo\<lparr>listeners := remove1 (SOpen, HOpen this) (listeners fo)\<rparr>)
           granted)"
    unfolding opened using lg fg by (simp add: firmata_emit_def)
  have to: "list_all (\<lambda>x. timer_pid (snd x) \<noteq> p) (timers opened)"
    and pro: "promises opened ! p = \<lparr>status = Pending, cleanup = None, thens = []\<rparr>"
    and leno: "p < length (promises opened)"
    and so: "state (boards opened this) = Connect"
    and fo: "firmata (boards opened this) = Some ?f"
    and lo: "listeners_for ?f SReady opened = [HReady this p]"
    unfolding o using others tg prg leng fg lg by (simp_all add: listeners_for_def)
  note wait = waiting_for_ready [OF fo leno pro to lo]
  have c2: "state (boards (elapse k opened) this) = Connect"
    and c3: "firmata (boards (elapse k opened) this) = Some ?f"
    using wait(2) so fo by simp_all
  have d: "denied = settle_promise p (Rejected reason)
                      (releaseBoard this (w1\<lparr>requests := requests w\<rparr>))"
    unfolding denied using req by (simp add: w1 p port_denied_def)
  have d1: "status (promises denied ! p) = Rejected reason"
    and d2: "state (boards denied this) = Disconnect"
    and d3: "firmata (boards denied this) = None"
    unfolding d w1 p
    by (simp_all add: settle_promise_def releaseBoard_fields)
  show ?thesis
    using t1 a1 a2 b1 b2 b3 wait(1) c2 c3 wait(3) wait(4) d1 d2 d3 by blast
qed

lemma initial_fresh: "timers_fresh (initial t)" "requests_fresh (initial t)"
  by (simp_all add: timers_fresh_def requests_fresh_def initial_def)

text \<open>
  From the start of a session, board 0 connecting on its own: pending after 5000 ms
  without "ready", ready as soon as "ready" comes after those 5000 ms, and released with
  the user's refusal as reason when the port request is refused.
\<close>

theorem connectSerial_has_no_deadline_witness:
  "status (promises (elapse 5000 session_waiting) ! 0) = Pending \<and>
   state (boards (elapse 5000 session_waiting) 0) = Connect \<and>
   status (promises (step (Emit 0 SReady 0) (elapse 5000 session_waiting)) ! 0) =
     Resolved (VBoard 0) \<and>
   state (boards (step (Emit 0 SReady 0) (elapse 5000 session_waiting)) 0) = Ready \<and>
   status (promises (step (PortDenied 0 (Reason ''NotFoundError''))
                       (snd (connectSerial 0 (initial 1000)))) ! 0) =
     Rejected (Reason ''NotFoundError'') \<and>
   state (boards (step (PortDenied 0 (Reason ''NotFoundError''))
                    (snd (connectSerial 0 (initial 1000)))) 0) = Disconnect"
proof -
  have idle: "firmata (boards (initial 1000) 0) = None"
    by (simp add: initial_def new_board_def)
  have call: "connectSerial 0 (initial 1000) = (0, snd (connectSerial 0 (initial 1000)))"
    by (simp add: connectSerial_def initial_def new_board_def new_promise_def)
  have waiting: "session_waiting =
      step (Emit (nfirmatas (initial 1000)) SOpen 0)
        (step (PortGranted 0 akadako uno) (snd (connectSerial 0 (initial 1000))))"
    by (simp add: session_waiting_def run_def initial_def)
  have client: "nfirmatas (initial 1000) = 0"
    by (simp add: initial_def)
  show ?thesis
    using connectSerial_has_no_deadline [OF idle initial_fresh call refl waiting refl,
        of 5000 "Reason ''NotFoundError''"]
    unfolding client by blast
qed

end
